theory Spec2Isabelle
  imports Main
begin

chapter \<open>The program\<close>

section \<open>Raw backend failures (openai.service.js)\<close>

text \<open>
  The service reads three things of a caught error: \<open>error.message\<close>, \<open>error.code\<close> and
  \<open>error.response\<close> (with \<open>response.status\<close> and \<open>response.data\<close>). A raw error is a
  record of these; it is an \<open>Error\<close> object, so it has a message. \<open>response.data\<close> is
  read as \<open>data.error?.code\<close>: the optional chaining
  guards \<open>error\<close>, not \<open>data\<close>, so an absent \<open>data\<close> is kept apart from a body whose
  \<open>error?.code\<close> is undefined.
\<close>

datatype js_data = DataUndefined | Data "string option"

record response =
  status :: int
  data :: js_data

record raw_error =
  message :: string
  code :: "string option"
  response :: "response option"

text \<open>\<open>ERROR_CODES\<close> of \<open>utils/errorCodes\<close>: only the names the two modules use.\<close>

datatype error_code =
    CONTEXT_LENGTH_EXCEEDED | UNAUTHORIZED | FORBIDDEN | RESOURCE_NOT_FOUND
  | RATE_LIMIT_EXCEEDED | VALIDATION_ERROR | TOO_MANY_REQUESTS | MODEL_UNAVAILABLE

text \<open>
  What \<open>mapToServiceError\<close> hands to \<open>throw\<close>: a fresh \<open>Error\<close> (message, \<open>code\<close>,
  \<open>errorCode\<close>), the original error object unchanged, or the \<open>TypeError\<close> that reading
  \<open>data.error\<close> raises when \<open>data\<close> is undefined.
\<close>

datatype service_error =
    NewError string "string option" "error_code option"
  | Original raw_error
  | JsTypeError

text \<open>\<open>String.prototype.includes\<close>: the argument occurs as a contiguous run.\<close>

primrec str_includes :: "string \<Rightarrow> string \<Rightarrow> bool" where
  "str_includes [] sub = (sub = [])"
| "str_includes (c # cs) sub = (take (length sub) (c # cs) = sub \<or> str_includes cs sub)"

definition isRetryableError :: "raw_error \<Rightarrow> bool" where
  "isRetryableError error =
     (if str_includes (message error) ''timed out'' \<or> code error = Some ''ETIMEDOUT'' then True
      else case response error of
             Some r \<Rightarrow> status r \<in> set [429, 500, 502, 503, 504]
           | None \<Rightarrow> code error = Some ''ECONNRESET'' \<or>
                     code error = Some ''ECONNREFUSED'' \<or>
                     code error = Some ''ENOTFOUND'')"

definition mapToServiceError :: "raw_error option \<Rightarrow> service_error" where
  "mapToServiceError error =
     (case error of
        None \<Rightarrow> NewError ''Unknown error occurred'' None None
      | Some e \<Rightarrow>
          (case response e of
             None \<Rightarrow> Original e
           | Some r \<Rightarrow>
               if status r = 400 then
                 (case data r of
                    DataUndefined \<Rightarrow> JsTypeError
                  | Data c \<Rightarrow>
                      if c = Some ''context_length_exceeded''
                      then NewError ''Prompt exceeds maximum context length for the model''
                             (Some ''context_length_exceeded'') (Some CONTEXT_LENGTH_EXCEEDED)
                      else Original e)
               else if status r = 401 then NewError ''Invalid API key'' None (Some UNAUTHORIZED)
               else if status r = 403 then NewError ''Permission denied'' None (Some FORBIDDEN)
               else if status r = 404
                 then NewError ''Requested resource not found'' None (Some RESOURCE_NOT_FOUND)
               else if status r = 429
                 then NewError ''Rate limit exceeded'' None (Some RATE_LIMIT_EXCEEDED)
               else Original e))"

section \<open>The retry engine: \<open>executeWithRetry\<close>\<close>

record config =
  maxRetries :: int
  retryDelay :: int
  timeout :: int

definition DEFAULT_CONFIG :: config where
  "DEFAULT_CONFIG = \<lparr>maxRetries = 2, retryDelay = 1000, timeout = 30000\<rparr>"

text \<open>The \<open>options\<close> argument: each key may be absent. \<open>{...DEFAULT_CONFIG, ...options}\<close>.\<close>

record retry_options =
  optMaxRetries :: "int option"
  optRetryDelay :: "int option"
  optTimeout :: "int option"

definition no_options :: retry_options where
  "no_options = \<lparr>optMaxRetries = None, optRetryDelay = None, optTimeout = None\<rparr>"

definition merge_config :: "retry_options \<Rightarrow> config" where
  "merge_config options =
     \<lparr>maxRetries = (case optMaxRetries options of Some m \<Rightarrow> m | None \<Rightarrow> maxRetries DEFAULT_CONFIG),
      retryDelay = (case optRetryDelay options of Some d \<Rightarrow> d | None \<Rightarrow> retryDelay DEFAULT_CONFIG),
      timeout = (case optTimeout options of Some t \<Rightarrow> t | None \<Rightarrow> timeout DEFAULT_CONFIG)\<rparr>"

text \<open>
  One attempt is \<open>Promise.race([operation(), timeoutPromise])\<close>: the operation resolves,
  the operation rejects with a raw error, or the timer fires first and rejects with
  \<open>new Error('Request timed out')\<close>. The wrapped operation is the function giving the
  outcome of its \<open>k\<close>-th invocation.
\<close>

datatype 'a attempt_outcome = Resolved 'a | Rejected raw_error | TimerFired

definition timeout_error :: raw_error where
  "timeout_error = \<lparr>message = ''Request timed out'', code = None, response = None\<rparr>"

fun settle :: "'a attempt_outcome \<Rightarrow> raw_error + 'a" where
  "settle (Resolved v) = Inr v"
| "settle (Rejected e) = Inl e"
| "settle TimerFired = Inl timeout_error"

text \<open>
  What the engine does, in order: it invokes the operation, and it sleeps a backoff. How
  long an attempt may take (\<open>config.timeout\<close>) and how long a backoff lasts
  (\<open>calculateBackoff\<close>, with its random jitter) decide no outcome beyond which of the
  three ways an attempt ends, and are not recorded.
\<close>

datatype event = Attempted nat | BackedOff nat

text \<open>
  The \<open>for\<close> loop with its \<open>break\<close>, from iteration \<open>attempt\<close> on; \<open>lastError\<close> is the
  variable of that name and \<open>trace\<close> collects the events so far. The \<open>throw\<close> after the
  loop is the \<open>Inl\<close> result.
\<close>

function retry_loop ::
  "config \<Rightarrow> (nat \<Rightarrow> 'a attempt_outcome) \<Rightarrow> nat \<Rightarrow> raw_error option \<Rightarrow> event list
     \<Rightarrow> (service_error + 'a) \<times> event list" where
  "retry_loop config operation attempt lastError trace =
     (if int attempt \<le> maxRetries config then
        (case settle (operation attempt) of
           Inr result \<Rightarrow> (Inr result, trace @ [Attempted attempt])
         | Inl error \<Rightarrow>
             if \<not> isRetryableError error \<or> int attempt = maxRetries config
             then (Inl (mapToServiceError (Some error)), trace @ [Attempted attempt])
             else retry_loop config operation (attempt + 1) (Some error)
                    (trace @ [Attempted attempt, BackedOff attempt]))
      else (Inl (mapToServiceError lastError), trace))"
  by pat_completeness auto
termination
  by (relation "measure (\<lambda>(config, operation, attempt, lastError, trace).
        nat (maxRetries config + 1 - int attempt))") auto

declare retry_loop.simps [simp del]

definition executeWithRetry ::
  "(nat \<Rightarrow> 'a attempt_outcome) \<Rightarrow> retry_options \<Rightarrow> (service_error + 'a) \<times> event list" where
  "executeWithRetry operation options = retry_loop (merge_config options) operation 0 None []"

definition attempts :: "event list \<Rightarrow> nat" where
  "attempts trace = length (filter (\<lambda>ev. case ev of Attempted k \<Rightarrow> True | BackedOff k \<Rightarrow> False) trace)"

definition backoffs :: "event list \<Rightarrow> nat" where
  "backoffs trace = length (filter (\<lambda>ev. case ev of Attempted k \<Rightarrow> False | BackedOff k \<Rightarrow> True) trace)"

section \<open>Cache key and TTL (\<open>generateText\<close> of openai.service.js)\<close>

text \<open>
  A JavaScript number that the code only passes along and prints into the key is kept as
  its rendering \<open>String(n)\<close> (\<open>0.7\<close>, \<open>1000\<close>); two numbers are equal exactly when
  their renderings are. A number is falsy when it is \<open>0\<close> or \<open>NaN\<close>.
\<close>

type_synonym js_number = string

definition number_literal :: "js_number \<Rightarrow> bool" where
  "number_literal n = (n \<noteq> [] \<and> set n \<subseteq> set ''0123456789.e+-'')"

definition truthy_number :: "js_number \<Rightarrow> bool" where
  "truthy_number n = (n \<noteq> ''0'' \<and> n \<noteq> ''NaN'')"

text \<open>
  The prompt and the system prompt are JavaScript strings: sequences of 16-bit code units
  (UTF-16), in which a surrogate may stand alone. \<open>Buffer.from(prompt)\<close> encodes such a
  string in UTF-8: a high surrogate followed by a low one is one code point above
  \<open>0xFFFF\<close>, any other surrogate is replaced by \<open>U+FFFD\<close>, and each code point becomes
  one to four bytes. A string that is only copied and compared (the model name, the user
  id) is kept as a char list.
\<close>

type_synonym js_text = "nat list"

definition ascii :: "string \<Rightarrow> js_text" where
  "ascii s = map of_char s"

definition high_surrogate :: "nat \<Rightarrow> bool" where
  "high_surrogate u = (55296 \<le> u \<and> u < 56320)"

definition low_surrogate :: "nat \<Rightarrow> bool" where
  "low_surrogate u = (56320 \<le> u \<and> u < 57344)"

definition scalar_of :: "nat \<Rightarrow> nat" where
  "scalar_of u = (if high_surrogate u \<or> low_surrogate u then 65533 else u)"

fun code_points :: "js_text \<Rightarrow> nat list" where
  "code_points [] = []"
| "code_points [u] = [scalar_of u]"
| "code_points (u # v # rest) =
     (if high_surrogate u \<and> low_surrogate v
      then (65536 + (u - 55296) * 1024 + (v - 56320)) # code_points rest
      else scalar_of u # code_points (v # rest))"

definition utf8_bytes :: "nat \<Rightarrow> nat list" where
  "utf8_bytes c =
     (if c < 128 then [c]
      else if c < 2048 then [192 + c div 64, 128 + c mod 64]
      else if c < 65536 then [224 + c div 4096, 128 + c div 64 mod 64, 128 + c mod 64]
      else [240 + c div 262144, 128 + c div 4096 mod 64, 128 + c div 64 mod 64,
            128 + c mod 64])"

definition Buffer_from :: "js_text \<Rightarrow> nat list" where
  "Buffer_from s = concat (map utf8_bytes (code_points s))"

definition base64_alphabet :: string where
  "base64_alphabet = ''ABCDEFGHIJKLMNOPQRSTUVWXYZabcdefghijklmnopqrstuvwxyz0123456789+/''"

definition b64char :: "nat \<Rightarrow> char" where
  "b64char n = base64_alphabet ! n"

text \<open>\<open>buffer.toString('base64')\<close> on a list of bytes: three bytes give four sextets.\<close>

fun base64 :: "nat list \<Rightarrow> string" where
  "base64 [] = []"
| "base64 [a] = [b64char (a div 4), b64char ((a mod 4) * 16), CHR ''='', CHR ''='']"
| "base64 [a, b] =
     [b64char (a div 4), b64char ((a mod 4) * 16 + b div 16), b64char ((b mod 16) * 4), CHR ''='']"
| "base64 (a # b # c # rest) =
     [b64char (a div 4), b64char ((a mod 4) * 16 + b div 16),
      b64char ((b mod 16) * 4 + c div 64), b64char (c mod 64)] @ base64 rest"

text \<open>\<open>Buffer.from(s).toString('base64')\<close>.\<close>

definition toBase64 :: "js_text \<Rightarrow> string" where
  "toBase64 s = base64 (Buffer_from s)"

text \<open>
  The template literal of lines 165 and 224 (the same text at both places, over the same
  local variables).
\<close>

definition cacheKey :: "string \<Rightarrow> js_number \<Rightarrow> js_number \<Rightarrow> js_text \<Rightarrow> js_text \<Rightarrow> string" where
  "cacheKey model temperature maxTokens prompt systemPrompt =
     ''openai:text:'' @ model @ '':'' @ temperature @ '':'' @ maxTokens @ '':'' @
     toBase64 prompt @ '':'' @ toBase64 systemPrompt"

definition cacheTTL :: "int \<Rightarrow> int" where
  "cacheTTL totalTokens = min (24 * 60 * 60) (max (60 * 30) (totalTokens * 20))"

text \<open>The spec's \<open>clamp(x, lowerBound, upperBound)\<close>, in its own words.\<close>

definition clamp :: "int \<Rightarrow> int \<Rightarrow> int \<Rightarrow> int" where
  "clamp x lowerBound upperBound =
     (if x < lowerBound then lowerBound else if upperBound < x then upperBound else x)"

section \<open>\<open>generateText\<close> (openai.service.js)\<close>

record params =
  prompt :: js_text
  systemPrompt :: "js_text option"
  temperature :: "js_number option"
  maxTokens :: "js_number option"
  model :: "string option"
  userId :: "string option"
  useCaching :: "bool option"
  topP :: "js_number option"
  frequencyPenalty :: "js_number option"
  presencePenalty :: "js_number option"

text \<open>A destructuring default \<open>{ x = d }\<close>, and \<open>x || d\<close> on a number.\<close>

definition default_to :: "'a \<Rightarrow> 'a option \<Rightarrow> 'a" where
  "default_to d v = (case v of Some x \<Rightarrow> x | None \<Rightarrow> d)"

definition number_or :: "js_number option \<Rightarrow> js_number \<Rightarrow> js_number" where
  "number_or v d = (case v of Some n \<Rightarrow> if truthy_number n then n else d | None \<Rightarrow> d)"

text \<open>
  The argument of \<open>openai.chat.completions.create\<close> and, of its response, what the
  service reads: the \<open>message.content\<close> of each choice, the three counts of \<open>usage\<close>
  (which a completion always has) and \<open>model\<close>.
\<close>

record api_request =
  api_model :: string
  messages :: "(string \<times> js_text) list"
  api_temperature :: js_number
  max_tokens :: js_number
  top_p :: js_number
  frequency_penalty :: js_number
  presence_penalty :: js_number
  user :: string

record api_usage =
  prompt_tokens :: int
  completion_tokens :: int
  total_tokens :: int

record api_response =
  choices :: "string list"
  api_usage :: api_usage
  response_model :: string

record usage =
  promptTokens :: int
  completionTokens :: int
  totalTokens :: int

record response_data =
  resultText :: string
  usage :: usage
  echoModel :: string

text \<open>
  Modelled from the spec: the cache module \<open>utils/cache\<close> is not among the sources. Per the
  spec, \<open>get(key)\<close> gives the entry stored under the key or a miss, and
  \<open>set(key, value, ttl)\<close> stores the value with its time to live, overwriting wholesale.
  A stored value is a serialized result; it is kept as the result that \<open>JSON.parse\<close>
  gives back.
\<close>

record cache_entry =
  entry_value :: response_data
  entry_ttl :: int

type_synonym cache = "string \<Rightarrow> cache_entry option"

definition cache_get :: "cache \<Rightarrow> string \<Rightarrow> response_data option" where
  "cache_get c key = map_option entry_value (c key)"

definition cache_set :: "cache \<Rightarrow> string \<Rightarrow> response_data \<Rightarrow> int \<Rightarrow> cache" where
  "cache_set c key v ttl = c(key \<mapsto> \<lparr>entry_value = v, entry_ttl = ttl\<rparr>)"

text \<open>
  One call of \<open>generateText\<close>: what it returns or throws, the cache afterwards, the
  backend attempts made, and the cache writes made.
\<close>

record gen_run =
  returned :: "service_error + response_data"
  cacheAfter :: cache
  backendEvents :: "event list"
  cacheWrites :: "(string \<times> response_data \<times> int) list"

text \<open>
  The local variables of \<open>generateText\<close> are the fields of \<open>params\<close> with their
  destructuring defaults; the defaults are applied where a variable is read. \<open>params_key\<close>
  is the key of both the lookup and the write, \<open>build_request\<close> the request sent to
  the backend. The \<open>catch\<close> logs and rethrows, so what the retry engine throws is what
  \<open>generateText\<close> throws; reading \<open>choices[0].message\<close> of a response without choices
  raises a \<open>TypeError\<close>.
\<close>

definition params_key :: "params \<Rightarrow> string" where
  "params_key ps =
     cacheKey (default_to ''gpt-4'' (model ps)) (default_to ''0.7'' (temperature ps))
       (default_to ''1000'' (maxTokens ps)) (prompt ps) (default_to [] (systemPrompt ps))"

definition build_request :: "params \<Rightarrow> api_request" where
  "build_request ps =
     \<lparr>api_model = default_to ''gpt-4'' (model ps),
      messages =
        (if default_to [] (systemPrompt ps) \<noteq> []
         then [(''system'', default_to [] (systemPrompt ps))] else []) @
        [(''user'', prompt ps)],
      api_temperature = default_to ''0.7'' (temperature ps),
      max_tokens = default_to ''1000'' (maxTokens ps),
      top_p = number_or (topP ps) ''1'',
      frequency_penalty = number_or (frequencyPenalty ps) ''0'',
      presence_penalty = number_or (presencePenalty ps) ''0'',
      user = default_to ''anonymous'' (userId ps)\<rparr>"

definition generateText ::
  "(api_request \<Rightarrow> nat \<Rightarrow> api_response attempt_outcome) \<Rightarrow> params \<Rightarrow> cache \<Rightarrow> gen_run" where
  "generateText backend ps c =
     (case (if default_to True (useCaching ps) then cache_get c (params_key ps) else None) of
        Some cachedResult \<Rightarrow>
          \<lparr>returned = Inr cachedResult, cacheAfter = c, backendEvents = [], cacheWrites = []\<rparr>
      | None \<Rightarrow>
          (case executeWithRetry (backend (build_request ps)) no_options of
             (Inl err, trace) \<Rightarrow>
               \<lparr>returned = Inl err, cacheAfter = c, backendEvents = trace, cacheWrites = []\<rparr>
           | (Inr result, trace) \<Rightarrow>
               (case choices result of
                  [] \<Rightarrow>
                    \<lparr>returned = Inl JsTypeError, cacheAfter = c, backendEvents = trace,
                     cacheWrites = []\<rparr>
                | generatedText # others \<Rightarrow>
                    (let responseData =
                           \<lparr>resultText = generatedText,
                            usage = \<lparr>promptTokens = prompt_tokens (api_usage result),
                                     completionTokens = completion_tokens (api_usage result),
                                     totalTokens = total_tokens (api_usage result)\<rparr>,
                            echoModel = response_model result\<rparr>
                     in if default_to True (useCaching ps)
                        then \<lparr>returned = Inr responseData,
                              cacheAfter =
                                cache_set c (params_key ps) responseData
                                  (cacheTTL (total_tokens (api_usage result))),
                              backendEvents = trace,
                              cacheWrites =
                                [(params_key ps, responseData,
                                  cacheTTL (total_tokens (api_usage result)))]\<rparr>
                        else \<lparr>returned = Inr responseData, cacheAfter = c,
                              backendEvents = trace, cacheWrites = []\<rparr>))))"

section \<open>The controller: effective parameters and backend selection\<close>

text \<open>
  \<open>exports.generateText\<close> of the text-generation controller. Of \<open>req.body\<close> only what
  lines 33 to 72 read: \<open>model\<close>, \<open>temperature\<close> and the two opt-in flags of \<open>options\<close>
  (an absent flag is falsy).
\<close>

record user_preference =
  preferredModel :: "string option"
  defaultTemperature :: "js_number option"
  defaultSystemPrompt :: "string option"

record request_body =
  req_model :: "string option"
  req_temperature :: "js_number option"
  usePreferredModel :: bool
  usePreferredSettings :: bool

text \<open>\<open>userPreference?.field\<close>: undefined when there is no preference record.\<close>

definition stored :: "(user_preference \<Rightarrow> 'a option) \<Rightarrow> user_preference option \<Rightarrow> 'a option" where
  "stored field userPreference = (case userPreference of Some p \<Rightarrow> field p | None \<Rightarrow> None)"

definition effectiveModel :: "request_body \<Rightarrow> user_preference option \<Rightarrow> string" where
  "effectiveModel body userPreference =
     (case stored preferredModel userPreference of
        Some preferred \<Rightarrow>
          if usePreferredModel body \<and> preferred \<noteq> [] then preferred
          else default_to ''gpt-4'' (req_model body)
      | None \<Rightarrow> default_to ''gpt-4'' (req_model body))"

definition effectiveTemperature :: "request_body \<Rightarrow> user_preference option \<Rightarrow> js_number" where
  "effectiveTemperature body userPreference =
     (case stored defaultTemperature userPreference of
        Some preferred \<Rightarrow>
          if usePreferredSettings body \<and> truthy_number preferred then preferred
          else default_to ''0.7'' (req_temperature body)
      | None \<Rightarrow> default_to ''0.7'' (req_temperature body))"

text \<open>
  The precedence rule in the spec's words: the explicit request value if present,
  otherwise the stored preference if the request opted in, otherwise the system default.
\<close>

definition resolve_by_precedence :: "'a option \<Rightarrow> bool \<Rightarrow> 'a option \<Rightarrow> 'a \<Rightarrow> 'a" where
  "resolve_by_precedence explicit optedIn preference systemDefault =
     (case explicit of
        Some v \<Rightarrow> v
      | None \<Rightarrow> (case (if optedIn then preference else None) of
                   Some p \<Rightarrow> p
                 | None \<Rightarrow> systemDefault))"

text \<open>
  \<open>toLowerCase\<close>: on text kept as UTF-8 bytes only the letters \<open>A\<close> to \<open>Z\<close> matter for
  the comparison with the \<open>case\<close> labels, which are ASCII.
\<close>

definition lower_char :: "char \<Rightarrow> char" where
  "lower_char ch =
     (case map_of (zip ''ABCDEFGHIJKLMNOPQRSTUVWXYZ'' ''abcdefghijklmnopqrstuvwxyz'') ch of
        Some l \<Rightarrow> l
      | None \<Rightarrow> ch)"

definition toLowerCase :: "string \<Rightarrow> string" where
  "toLowerCase s = map lower_char s"

datatype service = OpenaiService | PalmService | AnthropicService | LocalLLMService

definition selectService :: "string \<Rightarrow> service" where
  "selectService effModel =
     (let name = toLowerCase effModel in
      if name = ''gpt-4'' \<or> name = ''gpt-3.5-turbo'' then OpenaiService
      else if name = ''palm'' \<or> name = ''gemini'' then PalmService
      else if name = ''claude'' \<or> name = ''claude-instant'' then AnthropicService
      else if name = ''local-llama'' \<or> name = ''local-mistral'' then LocalLLMService
      else OpenaiService)"

text \<open>The static mapping from lowercase model identifier to adapter, as a table.\<close>

definition model_table :: "(string \<times> service) list" where
  "model_table =
     [(''gpt-4'', OpenaiService), (''gpt-3.5-turbo'', OpenaiService),
      (''palm'', PalmService), (''gemini'', PalmService),
      (''claude'', AnthropicService), (''claude-instant'', AnthropicService),
      (''local-llama'', LocalLLMService), (''local-mistral'', LocalLLMService)]"

section \<open>The controller: \<open>batchGenerate\<close>\<close>

text \<open>
  \<open>req.body.prompts\<close> is an array or anything else. An element of the array is a string;
  an object, of which \<open>text\<close>, \<open>systemPrompt\<close> and \<open>maxTokens\<close> are read, each possibly
  absent; a number or a boolean, on which \<open>typeof\<close> is neither \<open>'string'\<close> nor
  \<open>'object'\<close> and \<open>.text\<close> is undefined; or \<open>null\<close> (or \<open>undefined\<close>), on which
  reading \<open>.text\<close> raises a \<open>TypeError\<close>. In the batch a prompt is only handed on, so
  it is kept as a char list. Of the rest of \<open>req.body\<close>, \<open>model\<close> is a string and
  \<open>temperature\<close> a number when present, as the request type has them.
\<close>

record prompt_object =
  item_text :: "string option"
  item_systemPrompt :: "string option"
  item_maxTokens :: "js_number option"

datatype prompt_item = PromptString string | PromptObject prompt_object | PromptOther | PromptNull

datatype prompts_value = NotAnArray | PromptArray "prompt_item list"

record batch_body =
  prompts :: prompts_value
  batch_model :: "string option"
  batch_temperature :: "js_number option"

text \<open>
  The argument object of one \<open>generationService.generateText\<close> call of the batch, as the
  callback of \<open>prompts.map\<close> builds it; \<open>None\<close> when building it throws.
\<close>

record batch_params =
  bp_prompt :: "string option"
  bp_systemPrompt :: "string option"
  bp_temperature :: js_number
  bp_maxTokens :: js_number
  bp_model :: string
  bp_userId :: string

fun item_params :: "js_number \<Rightarrow> string \<Rightarrow> string \<Rightarrow> prompt_item \<Rightarrow> batch_params option" where
  "item_params temp mdl uid (PromptString s) =
     Some \<lparr>bp_prompt = Some s, bp_systemPrompt = Some [], bp_temperature = temp,
           bp_maxTokens = ''1000'', bp_model = mdl, bp_userId = uid\<rparr>"
| "item_params temp mdl uid (PromptObject obj) =
     Some \<lparr>bp_prompt = item_text obj, bp_systemPrompt = item_systemPrompt obj,
           bp_temperature = temp, bp_maxTokens = number_or (item_maxTokens obj) ''1000'',
           bp_model = mdl, bp_userId = uid\<rparr>"
| "item_params temp mdl uid PromptOther =
     Some \<lparr>bp_prompt = None, bp_systemPrompt = Some [], bp_temperature = temp,
           bp_maxTokens = ''1000'', bp_model = mdl, bp_userId = uid\<rparr>"
| "item_params temp mdl uid PromptNull = None"

text \<open>
  \<open>prompts.map(prompt => generationService.generateText({...}))\<close>: the calls are made in
  order, and an exception in the callback ends the \<open>map\<close> with the earlier calls made
  and the later ones not.
\<close>

datatype dispatch = Completed "batch_params list" | Aborted "batch_params list"

fun dispatch_calls :: "js_number \<Rightarrow> string \<Rightarrow> string \<Rightarrow> prompt_item list \<Rightarrow> dispatch" where
  "dispatch_calls temp mdl uid [] = Completed []"
| "dispatch_calls temp mdl uid (p # ps) =
     (case item_params temp mdl uid p of
        None \<Rightarrow> Aborted []
      | Some call \<Rightarrow>
          (case dispatch_calls temp mdl uid ps of
             Completed calls \<Rightarrow> Completed (call # calls)
           | Aborted calls \<Rightarrow> Aborted (call # calls)))"

text \<open>
  How one call settles under \<open>Promise.allSettled\<close>: fulfilled with a value, of which
  \<open>value.text\<close> and \<open>value.usage?.totalTokens\<close> are read, or rejected with a reason, of
  which \<open>reason.message\<close> is read.
\<close>

datatype settled = Fulfilled string "int option" | RejectedWith "string option"

datatype item_result = ItemSuccess nat string int | ItemFailure nat string

fun success :: "item_result \<Rightarrow> bool" where
  "success (ItemSuccess i txt tokens) = True"
| "success (ItemFailure i msg) = False"

fun index :: "item_result \<Rightarrow> nat" where
  "index (ItemSuccess i txt tokens) = i"
| "index (ItemFailure i msg) = i"

fun processResult :: "settled \<Rightarrow> nat \<Rightarrow> item_result" where
  "processResult (Fulfilled txt tokens) i =
     ItemSuccess i txt (case tokens of Some n \<Rightarrow> if n \<noteq> 0 then n else 0 | None \<Rightarrow> 0)"
| "processResult (RejectedWith msg) i =
     ItemFailure i (case msg of Some m \<Rightarrow> if m \<noteq> [] then m else ''Unknown error''
                    | None \<Rightarrow> ''Unknown error'')"

definition batch_selectService :: "string \<Rightarrow> service" where
  "batch_selectService mdl =
     (let name = toLowerCase mdl in
      if name = ''gpt-4'' \<or> name = ''gpt-3.5-turbo'' then OpenaiService else OpenaiService)"

record batch_metrics =
  metric_userId :: string
  metric_operation :: string
  metric_model :: string
  batchSize :: nat
  successCount :: nat
  failureCount :: nat

datatype batch_response =
    Rejected400 string error_code
  | Ok200 "item_result list" nat
  | PassedToNext

text \<open>
  \<open>Promise.allSettled(calls)\<close>: every call settles and the outcomes keep the order of the
  calls. \<open>results.map((result, index) => ...)\<close> follows.
\<close>

definition allSettled ::
  "(service \<Rightarrow> nat \<Rightarrow> batch_params \<Rightarrow> settled) \<Rightarrow> service \<Rightarrow> batch_params list \<Rightarrow> settled list" where
  "allSettled services generationService calls =
     map (\<lambda>i. services generationService i (calls ! i)) [0..<length calls]"

definition processResults :: "settled list \<Rightarrow> item_result list" where
  "processResults results = map (\<lambda>i. processResult (results ! i) i) [0..<length results]"

text \<open>
  \<open>batchGenerate\<close>. The services are given by how their \<open>i\<close>-th call of the batch settles;
  \<open>createMetricsRecord\<close> (of \<open>utils/metrics\<close>, not among the sources) is given by whether
  its promise resolves, a rejection landing in the \<open>catch\<close> and so in \<open>next(error)\<close>, as
  does the \<open>TypeError\<close> of a \<open>null\<close> element; \<open>uid\<close> is
  \<open>req.user?.id || 'anonymous'\<close>. The result is the response and the list of calls
  dispatched.
\<close>

definition batchGenerate ::
  "(service \<Rightarrow> nat \<Rightarrow> batch_params \<Rightarrow> settled) \<Rightarrow> (batch_metrics \<Rightarrow> bool) \<Rightarrow> batch_body \<Rightarrow> string
     \<Rightarrow> batch_response \<times> batch_params list" where
  "batchGenerate services createMetricsRecord body uid =
     (case prompts body of
        NotAnArray \<Rightarrow>
          (Rejected400 ''A non-empty array of prompts is required'' VALIDATION_ERROR, [])
      | PromptArray ps \<Rightarrow>
          if length ps = 0
          then (Rejected400 ''A non-empty array of prompts is required'' VALIDATION_ERROR, [])
          else if length ps > 10
          then (Rejected400 ''Batch requests are limited to 10 prompts'' TOO_MANY_REQUESTS, [])
          else
            (let mdl = default_to ''gpt-3.5-turbo'' (batch_model body);
                 temp = default_to ''0.7'' (batch_temperature body);
                 generationService = batch_selectService mdl
             in case dispatch_calls temp mdl uid ps of
                  Aborted calls \<Rightarrow> (PassedToNext, calls)
                | Completed calls \<Rightarrow>
                    (let results = allSettled services generationService calls;
                         processedResults = processResults results
                     in if createMetricsRecord
                             \<lparr>metric_userId = uid, metric_operation = ''batch_text_generation'',
                              metric_model = mdl, batchSize = length ps,
                              successCount = length (filter success processedResults),
                              failureCount =
                                length (filter (\<lambda>r. \<not> success r) processedResults)\<rparr>
                        then (Ok200 processedResults (length (filter success processedResults)),
                              calls)
                        else (PassedToNext, calls))))"

chapter \<open>The specification's notions and scenarios\<close>

section \<open>Notions of the specification\<close>

subsection \<open>Runs of the retry engine\<close>

text \<open>An attempt that fails with an error the engine retries.\<close>

definition retryable_failure :: "'a attempt_outcome \<Rightarrow> bool" where
  "retryable_failure outcome =
     (case settle outcome of Inl e \<Rightarrow> isRetryableError e | Inr v \<Rightarrow> False)"

text \<open>The events of the attempts \<open>a\<close> to \<open>k - 1\<close>, each followed by its backoff.\<close>

definition backoff_run :: "nat \<Rightarrow> nat \<Rightarrow> event list" where
  "backoff_run a k = concat (map (\<lambda>j. [Attempted j, BackedOff j]) [a..<k])"

text \<open>
  The error the \<open>catch\<close> block binds after an attempt, and what the engine makes of the
  outcome of its last attempt.
\<close>

definition caught :: "'a attempt_outcome \<Rightarrow> raw_error option" where
  "caught outcome = (case settle outcome of Inl e \<Rightarrow> Some e | Inr v \<Rightarrow> None)"

definition surface :: "raw_error + 'a \<Rightarrow> service_error + 'a" where
  "surface s = (case s of Inr v \<Rightarrow> Inr v | Inl e \<Rightarrow> Inl (mapToServiceError (Some e)))"

text \<open>The configured maximum: \<open>options.maxRetries\<close> when given, the default 2 otherwise.\<close>

definition configured_maximum :: "retry_options \<Rightarrow> int" where
  "configured_maximum options = (case optMaxRetries options of Some m \<Rightarrow> m | None \<Rightarrow> 2)"

subsection \<open>The retryable set\<close>

text \<open>
  The retryable set in the spec's words, on the ways an attempt can fail: the per-attempt
  timeout is the engine's own timer firing before the operation settles; a rejection is
  retryable by its status 429, 500, 502, 503 or 504, or as a low-level connection failure
  (reset, refused, DNS failure), which comes without any response.
\<close>

definition has_status :: "raw_error \<Rightarrow> int \<Rightarrow> bool" where
  "has_status e s = (case response e of Some r \<Rightarrow> status r = s | None \<Rightarrow> False)"

definition connection_failure :: "raw_error \<Rightarrow> bool" where
  "connection_failure e =
     (response e = None \<and>
      (code e = Some ''ECONNRESET'' \<or> code e = Some ''ECONNREFUSED'' \<or>
       code e = Some ''ENOTFOUND''))"

definition claimed_retryable :: "'a attempt_outcome \<Rightarrow> bool" where
  "claimed_retryable outcome =
     (case outcome of
        Resolved v \<Rightarrow> False
      | TimerFired \<Rightarrow> True
      | Rejected e \<Rightarrow>
          has_status e 429 \<or> has_status e 500 \<or> has_status e 502 \<or> has_status e 503 \<or>
          has_status e 504 \<or> connection_failure e)"

text \<open>
  What the code adds to that set: a rejection whose message contains \<open>timed out\<close> or whose
  code is \<open>ETIMEDOUT\<close>, whatever its status.
\<close>

definition timeout_worded :: "'a attempt_outcome \<Rightarrow> bool" where
  "timeout_worded outcome =
     (case outcome of
        Rejected e \<Rightarrow> str_includes (message e) ''timed out'' \<or> code e = Some ''ETIMEDOUT''
      | Resolved v \<Rightarrow> False
      | TimerFired \<Rightarrow> False)"

subsection \<open>The error taxonomy and its decision table\<close>

datatype invalid_input = ContextLengthExceeded | Other

datatype ErrorKind =
    Timeout | RateLimited | ServerTransient | InvalidInput invalid_input
  | Unauthorized | Forbidden | NotFound | NetworkTransient | Unknown

definition context_length_subcode :: "raw_error \<Rightarrow> bool" where
  "context_length_subcode e =
     (case response e of
        Some r \<Rightarrow> status r = 400 \<and> data r = Data (Some ''context_length_exceeded'')
      | None \<Rightarrow> False)"

text \<open>
  The decision table, row by row, on the ways an attempt can fail (a resolved attempt has
  no kind). The rows do not overlap: the timeout row is the timer, the status rows need a
  response, the connection row has none.
\<close>

definition classify_rejection :: "raw_error \<Rightarrow> ErrorKind" where
  "classify_rejection e =
     (if has_status e 429 then RateLimited
      else if has_status e 500 \<or> has_status e 502 \<or> has_status e 503 \<or> has_status e 504
        then ServerTransient
      else if context_length_subcode e then InvalidInput ContextLengthExceeded
      else if has_status e 401 then Unauthorized
      else if has_status e 403 then Forbidden
      else if has_status e 404 then NotFound
      else if connection_failure e then NetworkTransient
      else Unknown)"

definition classify :: "'a attempt_outcome \<Rightarrow> ErrorKind option" where
  "classify outcome =
     (case outcome of
        Resolved v \<Rightarrow> None
      | TimerFired \<Rightarrow> Some Timeout
      | Rejected e \<Rightarrow> Some (classify_rejection e))"

text \<open>
  The kind a surfaced error carries is the one its \<open>errorCode\<close> stands for. The code
  attaches an \<open>errorCode\<close> only in \<open>mapToServiceError\<close>; an error handed on unchanged
  and a \<open>TypeError\<close> carry none, which the taxonomy calls \<open>Unknown\<close>.
\<close>

fun kind_of_code :: "error_code \<Rightarrow> ErrorKind" where
  "kind_of_code CONTEXT_LENGTH_EXCEEDED = InvalidInput ContextLengthExceeded"
| "kind_of_code UNAUTHORIZED = Unauthorized"
| "kind_of_code FORBIDDEN = Forbidden"
| "kind_of_code RESOURCE_NOT_FOUND = NotFound"
| "kind_of_code RATE_LIMIT_EXCEEDED = RateLimited"
| "kind_of_code other = Unknown"

fun attached_kind :: "service_error \<Rightarrow> ErrorKind option" where
  "attached_kind (NewError msg c (Some ec)) = Some (kind_of_code ec)"
| "attached_kind (NewError msg c None) = None"
| "attached_kind (Original e) = None"
| "attached_kind JsTypeError = None"

definition surfaced_kind :: "service_error \<Rightarrow> ErrorKind" where
  "surfaced_kind err = (case attached_kind err of Some k \<Rightarrow> k | None \<Rightarrow> Unknown)"

text \<open>The failures whose status \<open>mapToServiceError\<close> maps.\<close>

definition status_mapped :: "raw_error \<Rightarrow> bool" where
  "status_mapped e =
     (has_status e 429 \<or> context_length_subcode e \<or>
      has_status e 401 \<or> has_status e 403 \<or> has_status e 404)"

subsection \<open>Well-formed text\<close>

text \<open>
  A string of code units is well-formed text when every unit is a 16-bit value and every
  surrogate is paired: a high one is followed by a low one, and a low one follows a high
  one. \<open>units_of\<close> writes a code point back as one or two code units.
\<close>

fun well_formed :: "js_text \<Rightarrow> bool" where
  "well_formed [] = True"
| "well_formed [u] = (u < 65536 \<and> \<not> high_surrogate u \<and> \<not> low_surrogate u)"
| "well_formed (u # v # rest) =
     (if high_surrogate u then low_surrogate v \<and> well_formed rest
      else u < 65536 \<and> \<not> low_surrogate u \<and> well_formed (v # rest))"

definition units_of :: "nat \<Rightarrow> nat list" where
  "units_of c =
     (if c < 65536 then [c]
      else [55296 + (c - 65536) div 1024, 56320 + (c - 65536) mod 1024])"

text \<open>The number of bytes of a code point, and the number a leading byte announces.\<close>

definition utf8_length :: "nat \<Rightarrow> nat" where
  "utf8_length c = (if c < 128 then 1 else if c < 2048 then 2 else if c < 65536 then 3 else 4)"

definition lead_length :: "nat \<Rightarrow> nat" where
  "lead_length b = (if b < 128 then 1 else if b < 224 then 2 else if b < 240 then 3 else 4)"

definition bytes :: "nat list \<Rightarrow> bool" where
  "bytes xs = (\<forall>x \<in> set xs. x < 256)"

text \<open>The five values the key is made of: the fields of a request, defaults applied.\<close>

definition key_fields :: "params \<Rightarrow> string \<times> js_number \<times> js_number \<times> js_text \<times> js_text" where
  "key_fields ps =
     (default_to ''gpt-4'' (model ps), default_to ''0.7'' (temperature ps),
      default_to ''1000'' (maxTokens ps), prompt ps, default_to [] (systemPrompt ps))"

text \<open>A request as the spec types it: numbers are numbers, text is well-formed.\<close>

definition typed_request :: "params \<Rightarrow> bool" where
  "typed_request ps =
     (number_literal (default_to ''0.7'' (temperature ps)) \<and>
      number_literal (default_to ''1000'' (maxTokens ps)) \<and>
      well_formed (prompt ps) \<and> well_formed (default_to [] (systemPrompt ps)))"

subsection \<open>The parts of a batch\<close>

text \<open>
  The calls a batch makes when no element throws, the results it reports and the record
  it sends.
\<close>

definition batch_calls :: "batch_body \<Rightarrow> string \<Rightarrow> prompt_item list \<Rightarrow> batch_params list" where
  "batch_calls body uid ps =
     List.map_filter
       (item_params (default_to ''0.7'' (batch_temperature body))
          (default_to ''gpt-3.5-turbo'' (batch_model body)) uid) ps"

definition batch_results ::
  "(service \<Rightarrow> nat \<Rightarrow> batch_params \<Rightarrow> settled) \<Rightarrow> batch_body \<Rightarrow> string \<Rightarrow> prompt_item list
     \<Rightarrow> item_result list" where
  "batch_results services body uid ps =
     processResults (allSettled services OpenaiService (batch_calls body uid ps))"

definition batch_record :: "batch_body \<Rightarrow> string \<Rightarrow> item_result list \<Rightarrow> batch_metrics" where
  "batch_record body uid rs =
     \<lparr>metric_userId = uid, metric_operation = ''batch_text_generation'',
      metric_model = default_to ''gpt-3.5-turbo'' (batch_model body), batchSize = length rs,
      successCount = length (filter success rs),
      failureCount = length (filter (\<lambda>r. \<not> success r) rs)\<rparr>"

definition is_fulfilled :: "settled \<Rightarrow> bool" where
  "is_fulfilled s = (case s of Fulfilled txt tokens \<Rightarrow> True | RejectedWith msg \<Rightarrow> False)"

section \<open>Scenarios\<close>

text \<open>The concrete failures, backends and requests of the spec's scenarios.\<close>

definition rate_limited_429 :: raw_error where
  "rate_limited_429 =
     \<lparr>message = ''Request failed with status code 429'', code = None,
      response = Some \<lparr>status = 429, data = Data None\<rparr>\<rparr>"

definition context_length_400 :: raw_error where
  "context_length_400 =
     \<lparr>message = ''Request failed with status code 400'', code = None,
      response = Some \<lparr>status = 400, data = Data (Some ''context_length_exceeded'')\<rparr>\<rparr>"

definition context_length_timed_out :: raw_error where
  "context_length_timed_out =
     \<lparr>message = ''Tokenizer timed out: context length exceeded'', code = None,
      response = Some \<lparr>status = 400, data = Data (Some ''context_length_exceeded'')\<rparr>\<rparr>"

definition bad_request_no_body :: raw_error where
  "bad_request_no_body =
     \<lparr>message = ''Request failed with status code 400'', code = None,
      response = Some \<lparr>status = 400, data = DataUndefined\<rparr>\<rparr>"

definition unauthorized_401 :: raw_error where
  "unauthorized_401 =
     \<lparr>message = ''Request failed with status code 401'', code = None,
      response = Some \<lparr>status = 401, data = Data None\<rparr>\<rparr>"

definition forbidden_403 :: raw_error where
  "forbidden_403 =
     \<lparr>message = ''Request failed with status code 403'', code = None,
      response = Some \<lparr>status = 403, data = Data None\<rparr>\<rparr>"

definition not_found_404 :: raw_error where
  "not_found_404 =
     \<lparr>message = ''Request failed with status code 404'', code = None,
      response = Some \<lparr>status = 404, data = Data None\<rparr>\<rparr>"

definition bad_gateway_502 :: raw_error where
  "bad_gateway_502 =
     \<lparr>message = ''Request failed with status code 502'', code = None,
      response = Some \<lparr>status = 502, data = Data None\<rparr>\<rparr>"

definition connection_reset :: raw_error where
  "connection_reset = \<lparr>message = ''socket hang up'', code = Some ''ECONNRESET'', response = None\<rparr>"

definition rate_limited_twice :: "nat \<Rightarrow> unit attempt_outcome" where
  "rate_limited_twice k = (if k < 2 then Rejected rate_limited_429 else Resolved ())"

definition context_too_long :: "nat \<Rightarrow> unit attempt_outcome" where
  "context_too_long k = Rejected context_length_400"

definition context_timing_out :: "nat \<Rightarrow> unit attempt_outcome" where
  "context_timing_out k = Rejected context_length_timed_out"

definition always_times_out :: "nat \<Rightarrow> unit attempt_outcome" where
  "always_times_out k = TimerFired"

definition gateway_failing :: "nat \<Rightarrow> unit attempt_outcome" where
  "gateway_failing k = Rejected bad_gateway_502"

definition connection_dropping :: "nat \<Rightarrow> unit attempt_outcome" where
  "connection_dropping k = Rejected connection_reset"

definition one_retry :: retry_options where
  "one_retry = \<lparr>optMaxRetries = Some 1, optRetryDelay = None, optTimeout = Some 5000\<rparr>"

definition hello_params :: params where
  "hello_params =
     \<lparr>prompt = ascii ''Hello'', systemPrompt = None, temperature = Some ''0.7'',
      maxTokens = None, model = Some ''gpt-4'', userId = None, useCaching = None, topP = None,
      frequencyPenalty = None, presencePenalty = None\<rparr>"

definition hello_again_params :: params where
  "hello_again_params = hello_params\<lparr>prompt := ascii ''Hello!''\<rparr>"

definition emoji_params :: params where
  "emoji_params = hello_params\<lparr>prompt := [55357, 56832]\<rparr>"

definition explicit_params :: params where
  "explicit_params =
     \<lparr>prompt = ascii ''Hello'', systemPrompt = Some (ascii ''Be brief''),
      temperature = Some ''0.2'', maxTokens = Some ''50'', model = Some ''gpt-3.5-turbo'',
      userId = Some ''u1'', useCaching = Some True, topP = None, frequencyPenalty = None,
      presencePenalty = None\<rparr>"

definition lone_surrogate_params :: params where
  "lone_surrogate_params = hello_params\<lparr>prompt := [55296]\<rparr>"

definition replacement_params :: params where
  "replacement_params = hello_params\<lparr>prompt := [65533]\<rparr>"

definition hi_there :: api_response where
  "hi_there =
     \<lparr>choices = [''Hi there''],
      api_usage = \<lparr>prompt_tokens = 5, completion_tokens = 3, total_tokens = 8\<rparr>,
      response_model = ''gpt-4''\<rparr>"

definition hi_there_data :: response_data where
  "hi_there_data =
     \<lparr>resultText = ''Hi there'',
      usage = \<lparr>promptTokens = 5, completionTokens = 3, totalTokens = 8\<rparr>,
      echoModel = ''gpt-4''\<rparr>"

definition long_answer :: api_response where
  "long_answer =
     \<lparr>choices = [''A long answer''],
      api_usage = \<lparr>prompt_tokens = 200, completion_tokens = 800, total_tokens = 1000\<rparr>,
      response_model = ''gpt-4''\<rparr>"

definition long_answer_data :: response_data where
  "long_answer_data =
     \<lparr>resultText = ''A long answer'',
      usage = \<lparr>promptTokens = 200, completionTokens = 800, totalTokens = 1000\<rparr>,
      echoModel = ''gpt-4''\<rparr>"

definition answering_backend :: "api_request \<Rightarrow> nat \<Rightarrow> api_response attempt_outcome" where
  "answering_backend request k = Resolved hi_there"

definition verbose_backend :: "api_request \<Rightarrow> nat \<Rightarrow> api_response attempt_outcome" where
  "verbose_backend request k = Resolved long_answer"

definition failing_backend :: "api_request \<Rightarrow> nat \<Rightarrow> api_response attempt_outcome" where
  "failing_backend request k = TimerFired"

definition explicit_turbo_opted_in :: request_body where
  "explicit_turbo_opted_in =
     \<lparr>req_model = Some ''gpt-3.5-turbo'', req_temperature = Some ''0.2'',
      usePreferredModel = True, usePreferredSettings = True\<rparr>"

definition prefers_claude :: user_preference where
  "prefers_claude =
     \<lparr>preferredModel = Some ''claude'', defaultTemperature = Some ''1.5'',
      defaultSystemPrompt = None\<rparr>"

definition always_fulfilled :: "service \<Rightarrow> nat \<Rightarrow> batch_params \<Rightarrow> settled" where
  "always_fulfilled svc i call = Fulfilled ''ok'' (Some 8)"


definition accepting_sink :: "batch_metrics \<Rightarrow> bool" where
  "accepting_sink metrics = True"


definition batch_of :: "prompt_item list \<Rightarrow> batch_body" where
  "batch_of ps = \<lparr>prompts = PromptArray ps, batch_model = None, batch_temperature = None\<rparr>"

definition no_array :: batch_body where
  "no_array = \<lparr>prompts = NotAnArray, batch_model = None, batch_temperature = None\<rparr>"




chapter \<open>Properties\<close>

section \<open>Retries\<close>

subsection \<open>Counting events\<close>

lemma backoff_run_same [simp]: "backoff_run a a = []"
  by (simp add: backoff_run_def)

lemma backoff_run_step:
  "a < k \<Longrightarrow> backoff_run a k = [Attempted a, BackedOff a] @ backoff_run (a + 1) k"
  by (simp add: backoff_run_def upt_conv_Cons)

lemma attempts_append [simp]: "attempts (xs @ ys) = attempts xs + attempts ys"
  by (simp add: attempts_def)

lemma backoffs_append [simp]: "backoffs (xs @ ys) = backoffs xs + backoffs ys"
  by (simp add: backoffs_def)

lemma attempts_single [simp]:
  "attempts [] = 0" "attempts [Attempted k] = 1" "attempts [BackedOff k] = 0"
  by (simp_all add: attempts_def)

lemma backoffs_single [simp]:
  "backoffs [] = 0" "backoffs [Attempted k] = 0" "backoffs [BackedOff k] = 1"
  by (simp_all add: backoffs_def)

lemma attempts_backoff_run: "attempts (backoff_run a k) = k - a"
  by (induction k) (auto simp: backoff_run_def attempts_def Suc_diff_le)

lemma backoffs_backoff_run: "backoffs (backoff_run a k) = k - a"
  by (induction k) (auto simp: backoff_run_def backoffs_def Suc_diff_le)

subsection \<open>Which attempts are made\<close>

text \<open>
  Attempt \<open>k\<close> is made exactly when it is within the configured maximum and every attempt
  before it failed with a retryable error. By computation induction on the loop.
\<close>

lemma retry_loop_attempted:
  "Attempted k \<in> set (snd (retry_loop c operation a le t)) \<longleftrightarrow>
     Attempted k \<in> set t \<or>
     (a \<le> k \<and> int k \<le> maxRetries c \<and>
      (\<forall>j. a \<le> j \<and> j < k \<longrightarrow> retryable_failure (operation j)))"
proof (induction c operation a le t rule: retry_loop.induct)
  case (1 c operation a le t)
  let ?reach = "\<lambda>a. a \<le> k \<and> int k \<le> maxRetries c \<and>
      (\<forall>j. a \<le> j \<and> j < k \<longrightarrow> retryable_failure (operation j))"
  show ?case
  proof (cases "int a \<le> maxRetries c")
    case False
    then show ?thesis by (auto simp add: retry_loop.simps [of c operation a])
  next
    case in_range: True
    have stop_here: "?reach a \<longleftrightarrow> k = a"
      if "\<not> retryable_failure (operation a) \<or> int a = maxRetries c"
      using that in_range by (cases "k = a") (auto simp: not_less [symmetric])
    show ?thesis
    proof (cases "settle (operation a)")
      case (Inr v)
      then have "\<not> retryable_failure (operation a)" by (simp add: retryable_failure_def)
      moreover have "snd (retry_loop c operation a le t) = t @ [Attempted a]"
        using in_range Inr by (simp add: retry_loop.simps [of c operation a])
      ultimately show ?thesis using stop_here by auto
    next
      case (Inl e)
      show ?thesis
      proof (cases "\<not> isRetryableError e \<or> int a = maxRetries c")
        case True
        then have "\<not> retryable_failure (operation a) \<or> int a = maxRetries c"
          using Inl by (simp add: retryable_failure_def)
        moreover have "snd (retry_loop c operation a le t) = t @ [Attempted a]"
          using in_range Inl True by (simp add: retry_loop.simps [of c operation a])
        ultimately show ?thesis using stop_here by auto
      next
        case False
        then have rf: "retryable_failure (operation a)"
          using Inl by (simp add: retryable_failure_def)
        have eq: "retry_loop c operation a le t =
              retry_loop c operation (a + 1) (Some e) (t @ [Attempted a, BackedOff a])"
          using in_range Inl False by (simp add: retry_loop.simps [of c operation a])
        have ih: "Attempted k \<in> set (snd (retry_loop c operation (a + 1) (Some e)
                    (t @ [Attempted a, BackedOff a]))) \<longleftrightarrow>
            Attempted k \<in> set (t @ [Attempted a, BackedOff a]) \<or> ?reach (a + 1)"
          using "1.IH" [OF in_range Inl False] .
        have "?reach a \<longleftrightarrow> k = a \<or> ?reach (a + 1)"
        proof
          assume "?reach a"
          then show "k = a \<or> ?reach (a + 1)" by (cases "k = a") auto
        next
          assume "k = a \<or> ?reach (a + 1)"
          then show "?reach a"
          proof
            assume "k = a"
            then show ?thesis using in_range by auto
          next
            assume r: "?reach (a + 1)"
            have "retryable_failure (operation j)" if "a \<le> j \<and> j < k" for j
              using that r rf by (cases "j = a") auto
            then show ?thesis using r by simp
          qed
        qed
        then show ?thesis unfolding eq ih by auto
      qed
    qed
  qed
qed

subsection \<open>Where the engine stops\<close>

lemma retry_loop_stops_at:
  assumes "a \<le> k" and "int k \<le> maxRetries c"
    and "\<forall>j. a \<le> j \<and> j < k \<longrightarrow> retryable_failure (operation j)"
    and "\<not> retryable_failure (operation k) \<or> int k = maxRetries c"
  shows "retry_loop c operation a le t =
           (surface (settle (operation k)), t @ backoff_run a k @ [Attempted k])"
  using assms
proof (induction c operation a le t rule: retry_loop.induct)
  case (1 c operation a le t)
  have in_range: "int a \<le> maxRetries c" using "1.prems" by simp
  show ?case
  proof (cases "a = k")
    case True
    then show ?thesis using "1.prems" in_range
      by (auto simp: retry_loop.simps [of c operation k] surface_def retryable_failure_def
               split: sum.splits)
  next
    case False
    then have lt: "a < k" using "1.prems" by simp
    then have "retryable_failure (operation a)" using "1.prems" by simp
    then obtain e where e: "settle (operation a) = Inl e" "isRetryableError e"
      by (auto simp: retryable_failure_def split: sum.splits)
    have ne: "\<not> (\<not> isRetryableError e \<or> int a = maxRetries c)" using e lt "1.prems" by auto
    have "retry_loop c operation a le t =
            retry_loop c operation (a + 1) (Some e) (t @ [Attempted a, BackedOff a])"
      using in_range e ne by (simp add: retry_loop.simps [of c operation a])
    also have "\<dots> = (surface (settle (operation k)),
                      (t @ [Attempted a, BackedOff a]) @ backoff_run (a + 1) k @ [Attempted k])"
      using "1.IH" [OF in_range e(1) ne] lt "1.prems" by auto
    finally show ?thesis using backoff_run_step [OF lt] by simp
  qed
qed

lemma executeWithRetry_attempted:
  "Attempted k \<in> set (snd (executeWithRetry operation options)) \<longleftrightarrow>
     int k \<le> maxRetries (merge_config options) \<and> (\<forall>j<k. retryable_failure (operation j))"
  by (simp add: executeWithRetry_def retry_loop_attempted)

text \<open>
  Every run is a run of backoffs up to some attempt \<open>k\<close> within the maximum, then that
  attempt: \<open>k\<close> is the first attempt that is not a retryable failure, or the last one
  allowed.
\<close>

lemma executeWithRetry_run:
  "\<exists>k. int k \<le> max 0 (maxRetries (merge_config options)) \<and>
       snd (executeWithRetry operation options) =
         (if maxRetries (merge_config options) < 0 then [] else backoff_run 0 k @ [Attempted k])"
proof (cases "maxRetries (merge_config options) < 0")
  case True
  then show ?thesis by (simp add: executeWithRetry_def retry_loop.simps [of _ _ 0])
next
  case False
  let ?c = "merge_config options"
  let ?P = "\<lambda>k. \<not> retryable_failure (operation k) \<or> int k = maxRetries ?c"
  define k where "k = (LEAST k. ?P k)"
  have ex: "?P (nat (maxRetries ?c))" using False by simp
  have Pk: "?P k" unfolding k_def by (rule LeastI [of ?P, OF ex])
  have le: "k \<le> nat (maxRetries ?c)" unfolding k_def by (rule Least_le [of ?P, OF ex])
  have before: "\<not> ?P j" if "j < k" for j
    using that not_less_Least [of j ?P] by (simp add: k_def)
  have "retry_loop ?c operation 0 None [] =
          (surface (settle (operation k)), [] @ backoff_run 0 k @ [Attempted k])"
    using le False Pk before by (intro retry_loop_stops_at) auto
  then show ?thesis using le False by (auto simp: executeWithRetry_def intro!: exI [of _ k])
qed

text \<open>
  The errors the engine retries are the retryable set of the spec together with the
  rejections worded as timeouts; the timer's own error is worded so.
\<close>

lemma retryable_failure_iff:
  "retryable_failure outcome = (claimed_retryable outcome \<or> timeout_worded outcome)"
proof (cases outcome)
  case (Resolved v)
  then show ?thesis
    by (simp add: retryable_failure_def claimed_retryable_def timeout_worded_def)
next
  case (Rejected e)
  then show ?thesis
    by (auto simp: retryable_failure_def claimed_retryable_def timeout_worded_def
          isRetryableError_def has_status_def connection_failure_def split: option.splits)
next
  case TimerFired
  then show ?thesis
    by (simp add: retryable_failure_def claimed_retryable_def timeout_worded_def
          isRetryableError_def timeout_error_def)
qed

lemma maxRetries_merge_config: "maxRetries (merge_config options) = configured_maximum options"
  by (simp add: merge_config_def configured_maximum_def DEFAULT_CONFIG_def split: option.splits)

subsection \<open>The scenarios, run\<close>

lemmas run_defs =
  executeWithRetry_def retry_loop.simps merge_config_def no_options_def DEFAULT_CONFIG_def
  isRetryableError_def mapToServiceError_def timeout_error_def

lemma rate_limited_twice_run:
  "executeWithRetry rate_limited_twice no_options =
     (Inr (), [Attempted 0, BackedOff 0, Attempted 1, BackedOff 1, Attempted 2])"
  by (simp add: run_defs rate_limited_twice_def rate_limited_429_def)

lemma context_too_long_run:
  "executeWithRetry context_too_long no_options =
     (Inl (NewError ''Prompt exceeds maximum context length for the model''
             (Some ''context_length_exceeded'') (Some CONTEXT_LENGTH_EXCEEDED)),
      [Attempted 0])"
  by (simp add: run_defs context_too_long_def context_length_400_def)

lemma context_timing_out_run:
  "executeWithRetry context_timing_out no_options =
     (Inl (NewError ''Prompt exceeds maximum context length for the model''
             (Some ''context_length_exceeded'') (Some CONTEXT_LENGTH_EXCEEDED)),
      [Attempted 0, BackedOff 0, Attempted 1, BackedOff 1, Attempted 2])"
  by (simp add: run_defs context_timing_out_def context_length_timed_out_def)

lemma always_times_out_run:
  "executeWithRetry always_times_out no_options =
     (Inl (Original timeout_error),
      [Attempted 0, BackedOff 0, Attempted 1, BackedOff 1, Attempted 2])"
  by (simp add: run_defs always_times_out_def)

lemma times_out_one_retry_run:
  "executeWithRetry always_times_out one_retry =
     (Inl (Original timeout_error), [Attempted 0, BackedOff 0, Attempted 1])"
  by (simp add: run_defs always_times_out_def one_retry_def)

text \<open>
  C1, as stated, fails. A 400 with the context-length sub-code is outside the retryable
  set, the claim's own example of a failure surfaced at once; when its message contains
  \<open>timed out\<close> the engine attempts the operation three times before surfacing it.
\<close>

theorem executeWithRetry_retries_context_length:
  "\<not> claimed_retryable (context_timing_out 0) \<and>
   caught (context_timing_out 0) = Some context_length_timed_out \<and>
   context_length_subcode context_length_timed_out \<and>
   executeWithRetry context_timing_out no_options =
     (Inl (NewError ''Prompt exceeds maximum context length for the model''
             (Some ''context_length_exceeded'') (Some CONTEXT_LENGTH_EXCEEDED)),
      [Attempted 0, BackedOff 0, Attempted 1, BackedOff 1, Attempted 2]) \<and>
   Attempted (Suc 0) \<in> set (snd (executeWithRetry context_timing_out no_options)) \<and>
   attempts (snd (executeWithRetry context_timing_out no_options)) = 3"
  by (simp add: context_timing_out_run)
     (simp add: context_timing_out_def context_length_timed_out_def claimed_retryable_def
        caught_def has_status_def connection_failure_def context_length_subcode_def attempts_def)

text \<open>
  C1, amended. Whenever the engine has made attempt \<open>k\<close> and that attempt failed, it makes
  attempt \<open>k + 1\<close> if and only if \<open>k\<close> is below the configured maximum and the failure is
  in the retryable set (the per-attempt timer fired, or the rejection has status 429,
  500, 502, 503 or 504, or is a connection failure without response) or is a rejection
  whose message contains \<open>timed out\<close> or whose code is \<open>ETIMEDOUT\<close>, whatever its
  status. Any other failure is surfaced at once, as \<open>mapToServiceError\<close> maps it, and
  attempt \<open>k\<close> is the last one.
\<close>

theorem executeWithRetry_reattempts_iff_retryable:
  assumes run: "executeWithRetry operation options = (outcome, trace)"
    and made: "Attempted k \<in> set trace"
    and failed: "caught (operation k) = Some error"
  shows "(Attempted (Suc k) \<in> set trace \<longleftrightarrow>
            (claimed_retryable (operation k) \<or> timeout_worded (operation k)) \<and>
            int k < configured_maximum options) \<and>
         (\<not> claimed_retryable (operation k) \<and> \<not> timeout_worded (operation k) \<longrightarrow>
            outcome = Inl (mapToServiceError (Some error)) \<and> attempts trace = Suc k)"
proof -
  let ?c = "merge_config options"
  let ?retried = "claimed_retryable (operation k) \<or> timeout_worded (operation k)"
  have tr: "trace = snd (executeWithRetry operation options)" using run by simp
  have settled: "settle (operation k) = Inl error"
    using failed by (simp add: caught_def split: sum.splits)
  have k: "int k \<le> maxRetries ?c" and before: "\<forall>j<k. retryable_failure (operation j)"
    using made unfolding tr executeWithRetry_attempted by simp_all
  have rf: "retryable_failure (operation k) = ?retried"
    by (rule retryable_failure_iff)
  have "(\<forall>j<Suc k. retryable_failure (operation j)) = ?retried"
    using before rf by (auto simp: less_Suc_eq)
  then have first: "Attempted (Suc k) \<in> set trace \<longleftrightarrow> ?retried \<and> int k < configured_maximum options"
    unfolding tr executeWithRetry_attempted maxRetries_merge_config by auto
  have second: "outcome = Inl (mapToServiceError (Some error)) \<and> attempts trace = Suc k"
    if "\<not> ?retried"
  proof -
    have "retry_loop ?c operation 0 None [] =
            (surface (settle (operation k)), [] @ backoff_run 0 k @ [Attempted k])"
      using k before rf that by (intro retry_loop_stops_at) auto
    then have "(outcome, trace) =
        (Inl (mapToServiceError (Some error)), backoff_run 0 k @ [Attempted k])"
      using run settled by (simp add: executeWithRetry_def surface_def)
    then show ?thesis by (simp add: attempts_backoff_run)
  qed
  show ?thesis using first second by blast
qed

theorem executeWithRetry_reattempts_iff_retryable_witness:
  "executeWithRetry rate_limited_twice no_options =
     (Inr (), [Attempted 0, BackedOff 0, Attempted 1, BackedOff 1, Attempted 2]) \<and>
   caught (rate_limited_twice 0) = Some rate_limited_429 \<and>
   claimed_retryable (rate_limited_twice 0) \<and> configured_maximum no_options = 2 \<and>
   Attempted (Suc 0) \<in> set [Attempted 0, BackedOff 0, Attempted 1, BackedOff 1, Attempted 2] \<and>
   executeWithRetry context_too_long no_options =
     (Inl (NewError ''Prompt exceeds maximum context length for the model''
             (Some ''context_length_exceeded'') (Some CONTEXT_LENGTH_EXCEEDED)),
      [Attempted 0]) \<and>
   caught (context_too_long 0) = Some context_length_400 \<and>
   \<not> claimed_retryable (context_too_long 0) \<and> \<not> timeout_worded (context_too_long 0) \<and>
   Attempted (Suc 0) \<notin> set [Attempted 0] \<and>
   attempts [Attempted 0] = Suc 0 \<and>
   executeWithRetry always_times_out one_retry =
     (Inl (Original timeout_error), [Attempted 0, BackedOff 0, Attempted 1]) \<and>
   caught (always_times_out 0) = Some timeout_error \<and>
   claimed_retryable (always_times_out 0) \<and> configured_maximum one_retry = 1 \<and>
   Attempted (Suc 0) \<in> set [Attempted 0, BackedOff 0, Attempted 1] \<and>
   Attempted (Suc 1) \<notin> set [Attempted 0, BackedOff 0, Attempted 1]"
proof -
  have c1: "caught (rate_limited_twice 0) = Some rate_limited_429"
    and c2: "caught (context_too_long 0) = Some context_length_400"
    and c3: "caught (always_times_out 0) = Some timeout_error"
    and c4: "caught (always_times_out 1) = Some timeout_error"
    by (simp_all add: caught_def rate_limited_twice_def context_too_long_def always_times_out_def)
  have m1: "Attempted 0 \<in> set [Attempted 0, BackedOff 0, Attempted 1, BackedOff 1, Attempted 2]"
    and m2: "Attempted 0 \<in> set [Attempted 0]"
    and m3: "Attempted 0 \<in> set [Attempted 0, BackedOff 0, Attempted 1]"
    and m4: "Attempted 1 \<in> set [Attempted 0, BackedOff 0, Attempted 1]" by simp_all
  have r: "claimed_retryable (rate_limited_twice 0)" "claimed_retryable (always_times_out 0)"
    "claimed_retryable (always_times_out 1)"
    "\<not> claimed_retryable (context_too_long 0)" "\<not> timeout_worded (context_too_long 0)"
    by (simp_all add: claimed_retryable_def timeout_worded_def has_status_def
          connection_failure_def rate_limited_twice_def rate_limited_429_def
          always_times_out_def context_too_long_def context_length_400_def)
  have mx: "configured_maximum no_options = 2" "configured_maximum one_retry = 1"
    by (simp_all add: configured_maximum_def no_options_def one_retry_def)
  show ?thesis
    using executeWithRetry_reattempts_iff_retryable [OF rate_limited_twice_run m1 c1]
      executeWithRetry_reattempts_iff_retryable [OF context_too_long_run m2 c2]
      executeWithRetry_reattempts_iff_retryable [OF times_out_one_retry_run m3 c3]
      executeWithRetry_reattempts_iff_retryable [OF times_out_one_retry_run m4 c4]
      rate_limited_twice_run context_too_long_run times_out_one_retry_run c1 c2 c3 r mx
    by simp
qed

text \<open>
  C2. For every wrapped operation, whatever its outcomes, and every options object, the
  engine ends with a result (Succeeded) or a surfaced error (Exhausted) after at most
  \<open>maxRetries + 1\<close> attempts, having slept one backoff between consecutive attempts; with
  the default \<open>maxRetries = 2\<close> that is at most three attempts. (The loop is a total
  function: its termination is proved where it is defined.)
\<close>

theorem executeWithRetry_bounded_attempts:
  "attempts (snd (executeWithRetry operation options))
     \<le> nat (maxRetries (merge_config options) + 1) \<and>
   backoffs (snd (executeWithRetry operation options)) =
     attempts (snd (executeWithRetry operation options)) - 1 \<and>
   attempts (snd (executeWithRetry operation (options\<lparr>optMaxRetries := None\<rparr>))) \<le> 3 \<and>
   ((\<exists>result. fst (executeWithRetry operation options) = Inr result) \<or>
    (\<exists>error. fst (executeWithRetry operation options) = Inl error))"
proof -
  have bound: "attempts (snd (executeWithRetry operation opts))
        \<le> nat (maxRetries (merge_config opts) + 1) \<and>
     backoffs (snd (executeWithRetry operation opts)) =
        attempts (snd (executeWithRetry operation opts)) - 1"
    for opts
    using executeWithRetry_run [of opts operation]
    by (auto simp: attempts_backoff_run backoffs_backoff_run split: if_splits)
  have "maxRetries (merge_config (options\<lparr>optMaxRetries := None\<rparr>)) = 2"
    by (simp add: merge_config_def DEFAULT_CONFIG_def)
  then have "attempts (snd (executeWithRetry operation (options\<lparr>optMaxRetries := None\<rparr>))) \<le> 3"
    using bound [of "options\<lparr>optMaxRetries := None\<rparr>"] by simp
  moreover have "(\<exists>result. fst (executeWithRetry operation options) = Inr result) \<or>
    (\<exists>error. fst (executeWithRetry operation options) = Inl error)"
    by (cases "fst (executeWithRetry operation options)") auto
  ultimately show ?thesis using bound [of options] by blast
qed

theorem executeWithRetry_bounded_attempts_witness:
  "executeWithRetry always_times_out no_options =
     (Inl (Original timeout_error),
      [Attempted 0, BackedOff 0, Attempted 1, BackedOff 1, Attempted 2]) \<and>
   attempts (snd (executeWithRetry always_times_out no_options)) = 3 \<and>
   backoffs (snd (executeWithRetry always_times_out no_options)) = 2 \<and>
   nat (maxRetries (merge_config no_options) + 1) = 3"
proof -
  have "nat (maxRetries (merge_config no_options) + 1) = 3"
    by (simp add: merge_config_def no_options_def DEFAULT_CONFIG_def)
  moreover have "attempts [Attempted 0, BackedOff 0, Attempted 1, BackedOff 1, Attempted 2] = 3"
    and "backoffs [Attempted 0, BackedOff 0, Attempted 1, BackedOff 1, Attempted 2] = 2"
    by (simp_all add: attempts_def backoffs_def)
  ultimately show ?thesis
    using executeWithRetry_bounded_attempts [of always_times_out no_options]
    by (simp add: always_times_out_run)
qed

section \<open>Error classification\<close>

lemma mapToServiceError_no_response:
  "response e = None \<Longrightarrow> mapToServiceError (Some e) = Original e"
  by (simp add: mapToServiceError_def)

lemma mapToServiceError_unmapped:
  assumes "\<not> status_mapped e"
  shows "mapToServiceError (Some e) = Original e \<or> mapToServiceError (Some e) = JsTypeError"
proof (cases "response e")
  case None
  then show ?thesis by (simp add: mapToServiceError_no_response)
next
  case (Some r)
  then have "status r \<noteq> 401" "status r \<noteq> 403" "status r \<noteq> 404" "status r \<noteq> 429"
    and "status r = 400 \<Longrightarrow> data r \<noteq> Data (Some ''context_length_exceeded'')"
    using assms
    by (simp_all add: status_mapped_def has_status_def context_length_subcode_def)
  then show ?thesis using Some
    by (cases "data r") (auto simp add: mapToServiceError_def)
qed

lemma mapToServiceError_status:
  assumes "response e = Some r"
  shows "status r = 401 \<Longrightarrow>
           mapToServiceError (Some e) = NewError ''Invalid API key'' None (Some UNAUTHORIZED)"
    and "status r = 403 \<Longrightarrow>
           mapToServiceError (Some e) = NewError ''Permission denied'' None (Some FORBIDDEN)"
    and "status r = 404 \<Longrightarrow>
           mapToServiceError (Some e) =
             NewError ''Requested resource not found'' None (Some RESOURCE_NOT_FOUND)"
    and "status r = 429 \<Longrightarrow>
           mapToServiceError (Some e) =
             NewError ''Rate limit exceeded'' None (Some RATE_LIMIT_EXCEEDED)"
    and "status r = 400 \<Longrightarrow> data r = Data (Some ''context_length_exceeded'') \<Longrightarrow>
           mapToServiceError (Some e) =
             NewError ''Prompt exceeds maximum context length for the model''
               (Some ''context_length_exceeded'') (Some CONTEXT_LENGTH_EXCEEDED)"
  using assms by (simp_all add: mapToServiceError_def)

lemma mapToServiceError_mapped:
  assumes "status_mapped e"
  shows "attached_kind (mapToServiceError (Some e)) = Some (classify_rejection e)"
proof -
  from assms obtain r where r: "response e = Some r"
    by (auto simp: status_mapped_def has_status_def context_length_subcode_def
          split: option.splits)
  consider "status r = 429" | "status r = 400" "data r = Data (Some ''context_length_exceeded'')"
    | "status r = 401" | "status r = 403" | "status r = 404"
    using assms r by (auto simp: status_mapped_def has_status_def context_length_subcode_def)
  then show ?thesis
    by cases
       (simp_all add: mapToServiceError_status [OF r] classify_rejection_def has_status_def
          context_length_subcode_def r)
qed

lemmas kind_defs =
  classify_def classify_rejection_def has_status_def context_length_subcode_def
  connection_failure_def status_mapped_def mapToServiceError_def surfaced_kind_def caught_def

lemma gateway_failing_run:
  "executeWithRetry gateway_failing no_options =
     (Inl (Original bad_gateway_502),
      [Attempted 0, BackedOff 0, Attempted 1, BackedOff 1, Attempted 2])"
  by (simp add: run_defs gateway_failing_def bad_gateway_502_def)

text \<open>
  C3, as stated, fails. When the per-attempt timer fires, the table says Timeout; the
  engine surfaces the timer's error as it is, and no kind is attached to it. Likewise a
  502, ServerTransient by the table, and a connection reset, NetworkTransient by the
  table, are surfaced unchanged, carrying no kind.
\<close>

theorem mapToServiceError_attaches_no_kind:
  "classify (always_times_out 0) = Some Timeout \<and>
   caught (always_times_out 0) = Some timeout_error \<and>
   mapToServiceError (Some timeout_error) = Original timeout_error \<and>
   attached_kind (mapToServiceError (Some timeout_error)) = None \<and>
   Some (surfaced_kind (mapToServiceError (Some timeout_error))) \<noteq> classify (always_times_out 0) \<and>
   executeWithRetry always_times_out no_options =
     (Inl (Original timeout_error),
      [Attempted 0, BackedOff 0, Attempted 1, BackedOff 1, Attempted 2]) \<and>
   classify (gateway_failing 0) = Some ServerTransient \<and>
   caught (gateway_failing 0) = Some bad_gateway_502 \<and>
   attached_kind (mapToServiceError (Some bad_gateway_502)) = None \<and>
   Some (surfaced_kind (mapToServiceError (Some bad_gateway_502))) \<noteq> classify (gateway_failing 0) \<and>
   executeWithRetry gateway_failing no_options =
     (Inl (Original bad_gateway_502),
      [Attempted 0, BackedOff 0, Attempted 1, BackedOff 1, Attempted 2]) \<and>
   classify (connection_dropping 0) = Some NetworkTransient \<and>
   caught (connection_dropping 0) = Some connection_reset \<and>
   attached_kind (mapToServiceError (Some connection_reset)) = None \<and>
   Some (surfaced_kind (mapToServiceError (Some connection_reset))) \<noteq>
     classify (connection_dropping 0)"
  by (simp add: always_times_out_run gateway_failing_run)
     (simp add: kind_defs always_times_out_def gateway_failing_def connection_dropping_def
        timeout_error_def bad_gateway_502_def connection_reset_def)

text \<open>
  C3, amended. Error surfacing is a total function, and the surfaced error carries at most
  one kind, decided by the response status alone: 429 gives RateLimited, 400 with the
  context-length sub-code InvalidInput(ContextLengthExceeded), 401 Unauthorized, 403
  Forbidden, 404 NotFound, each as the decision table has it. Every other failure (the
  per-attempt timeout, 500, 502, 503, 504, connection reset, refused or DNS failure, and
  anything else) is surfaced with no kind attached, that is as Unknown: it is the raw
  error unchanged, or the \<open>TypeError\<close> of reading a 400 without body.
\<close>

theorem mapToServiceError_kind:
  "(has_status e 429 \<longrightarrow> attached_kind (mapToServiceError (Some e)) = Some RateLimited) \<and>
   (context_length_subcode e \<longrightarrow>
      attached_kind (mapToServiceError (Some e)) = Some (InvalidInput ContextLengthExceeded)) \<and>
   (has_status e 401 \<longrightarrow> attached_kind (mapToServiceError (Some e)) = Some Unauthorized) \<and>
   (has_status e 403 \<longrightarrow> attached_kind (mapToServiceError (Some e)) = Some Forbidden) \<and>
   (has_status e 404 \<longrightarrow> attached_kind (mapToServiceError (Some e)) = Some NotFound) \<and>
   (status_mapped e \<longrightarrow>
      Some (surfaced_kind (mapToServiceError (Some e))) = classify (Rejected e)) \<and>
   (\<not> status_mapped e \<longrightarrow>
      attached_kind (mapToServiceError (Some e)) = None \<and>
      surfaced_kind (mapToServiceError (Some e)) = Unknown \<and>
      (mapToServiceError (Some e) = Original e \<or> mapToServiceError (Some e) = JsTypeError)) \<and>
   mapToServiceError (caught TimerFired) = Original timeout_error \<and>
   attached_kind (mapToServiceError (caught TimerFired)) = None"
proof -
  have rows: "attached_kind (mapToServiceError (Some e)) = Some (classify_rejection e)"
    if "status_mapped e"
    using that by (rule mapToServiceError_mapped)
  have r429: "classify_rejection e = RateLimited" if "has_status e 429"
    using that by (simp add: classify_rejection_def)
  have rctx: "classify_rejection e = InvalidInput ContextLengthExceeded"
    if "context_length_subcode e"
    using that
    by (auto simp: classify_rejection_def context_length_subcode_def has_status_def
          split: option.splits)
  have r401: "classify_rejection e = Unauthorized" if "has_status e 401"
    using that
    by (auto simp: classify_rejection_def context_length_subcode_def has_status_def
          split: option.splits)
  have r403: "classify_rejection e = Forbidden" if "has_status e 403"
    using that
    by (auto simp: classify_rejection_def context_length_subcode_def has_status_def
          split: option.splits)
  have r404: "classify_rejection e = NotFound" if "has_status e 404"
    using that
    by (auto simp: classify_rejection_def context_length_subcode_def has_status_def
          split: option.splits)
  have mapped: "Some (surfaced_kind (mapToServiceError (Some e))) = classify (Rejected e)"
    if "status_mapped e"
    using rows [OF that] by (simp add: surfaced_kind_def classify_def)
  have unmapped: "attached_kind (mapToServiceError (Some e)) = None \<and>
      surfaced_kind (mapToServiceError (Some e)) = Unknown \<and>
      (mapToServiceError (Some e) = Original e \<or> mapToServiceError (Some e) = JsTypeError)"
    if "\<not> status_mapped e"
    using mapToServiceError_unmapped [OF that] by (auto simp: surfaced_kind_def)
  have timer: "mapToServiceError (caught TimerFired) = Original timeout_error"
    by (simp add: caught_def mapToServiceError_def timeout_error_def)
  have timer_kind: "attached_kind (mapToServiceError (caught TimerFired)) = None"
    by (simp add: caught_def mapToServiceError_def timeout_error_def)
  have c429: "attached_kind (mapToServiceError (Some e)) = Some RateLimited"
    if "has_status e 429"
    using rows r429 [OF that] that by (simp add: status_mapped_def)
  have cctx: "attached_kind (mapToServiceError (Some e)) =
      Some (InvalidInput ContextLengthExceeded)"
    if "context_length_subcode e"
    using rows rctx [OF that] that by (simp add: status_mapped_def)
  have c401: "attached_kind (mapToServiceError (Some e)) = Some Unauthorized"
    if "has_status e 401"
    using rows r401 [OF that] that by (simp add: status_mapped_def)
  have c403: "attached_kind (mapToServiceError (Some e)) = Some Forbidden"
    if "has_status e 403"
    using rows r403 [OF that] that by (simp add: status_mapped_def)
  have c404: "attached_kind (mapToServiceError (Some e)) = Some NotFound"
    if "has_status e 404"
    using rows r404 [OF that] that by (simp add: status_mapped_def)
  show ?thesis
    using c429 cctx c401 c403 c404 mapped unmapped timer timer_kind
    by blast
qed

theorem mapToServiceError_kind_witness:
  "has_status rate_limited_429 429 \<and>
   attached_kind (mapToServiceError (Some rate_limited_429)) = Some RateLimited \<and>
   context_length_subcode context_length_400 \<and>
   attached_kind (mapToServiceError (Some context_length_400)) =
     Some (InvalidInput ContextLengthExceeded) \<and>
   has_status unauthorized_401 401 \<and>
   attached_kind (mapToServiceError (Some unauthorized_401)) = Some Unauthorized \<and>
   has_status forbidden_403 403 \<and>
   attached_kind (mapToServiceError (Some forbidden_403)) = Some Forbidden \<and>
   has_status not_found_404 404 \<and>
   attached_kind (mapToServiceError (Some not_found_404)) = Some NotFound \<and>
   status_mapped unauthorized_401 \<and>
   Some (surfaced_kind (mapToServiceError (Some unauthorized_401))) =
     classify (Rejected unauthorized_401 :: unit attempt_outcome) \<and>
   \<not> status_mapped bad_gateway_502 \<and>
   mapToServiceError (Some bad_gateway_502) = Original bad_gateway_502 \<and>
   surfaced_kind (mapToServiceError (Some bad_gateway_502)) = Unknown \<and>
   \<not> status_mapped bad_request_no_body \<and>
   mapToServiceError (Some bad_request_no_body) = JsTypeError \<and>
   surfaced_kind (mapToServiceError (Some bad_request_no_body)) = Unknown"
  using mapToServiceError_kind [of rate_limited_429] mapToServiceError_kind [of context_length_400]
    mapToServiceError_kind [of unauthorized_401, where ?'a = unit]
    mapToServiceError_kind [of forbidden_403]
    mapToServiceError_kind [of not_found_404] mapToServiceError_kind [of bad_gateway_502]
    mapToServiceError_kind [of bad_request_no_body]
  by (simp add: kind_defs rate_limited_429_def context_length_400_def unauthorized_401_def
        forbidden_403_def not_found_404_def bad_gateway_502_def bad_request_no_body_def)

section \<open>Cache TTL\<close>

lemma cacheTTL_clamp: "cacheTTL t = clamp (t * 20) 1800 86400"
  by (simp add: cacheTTL_def clamp_def)

lemma cacheTTL_bounds: "1800 \<le> cacheTTL t \<and> cacheTTL t \<le> 86400"
  by (simp add: cacheTTL_def)

text \<open>Every cache write of \<open>generateText\<close>: its key, its time to live, and when it happens.\<close>

lemma generateText_writes:
  assumes "(key, v, ttl) \<in> set (cacheWrites (generateText backend ps c))"
  shows "key = params_key ps \<and> ttl = cacheTTL (totalTokens (usage v)) \<and>
         returned (generateText backend ps c) = Inr v \<and>
         cacheAfter (generateText backend ps c) = cache_set c key v ttl"
  using assms
  by (auto simp: generateText_def Let_def
           split: option.splits prod.splits sum.splits list.splits if_splits)

lemma generateText_writes_reported:
  assumes "(key, v, ttl) \<in> set (cacheWrites (generateText backend ps c))"
  shows "\<exists>result trace.
           executeWithRetry (backend (build_request ps)) no_options = (Inr result, trace) \<and>
           ttl = cacheTTL (total_tokens (api_usage result))"
  using assms
  by (auto simp: generateText_def Let_def
           split: option.splits prod.splits sum.splits list.splits if_splits)

text \<open>A generation that succeeds after a miss, caching enabled: the whole run.\<close>

lemma generateText_generated:
  assumes "default_to True (useCaching ps)" and "cache_get c (params_key ps) = None"
    and "executeWithRetry (backend (build_request ps)) no_options = (Inr result, trace)"
    and "choices result = generatedText # others"
  shows "generateText backend ps c =
           \<lparr>returned =
              Inr \<lparr>resultText = generatedText,
                   usage = \<lparr>promptTokens = prompt_tokens (api_usage result),
                            completionTokens = completion_tokens (api_usage result),
                            totalTokens = total_tokens (api_usage result)\<rparr>,
                   echoModel = response_model result\<rparr>,
            cacheAfter =
              cache_set c (params_key ps)
                \<lparr>resultText = generatedText,
                 usage = \<lparr>promptTokens = prompt_tokens (api_usage result),
                          completionTokens = completion_tokens (api_usage result),
                          totalTokens = total_tokens (api_usage result)\<rparr>,
                 echoModel = response_model result\<rparr>
                (cacheTTL (total_tokens (api_usage result))),
            backendEvents = trace,
            cacheWrites =
              [(params_key ps,
                \<lparr>resultText = generatedText,
                 usage = \<lparr>promptTokens = prompt_tokens (api_usage result),
                          completionTokens = completion_tokens (api_usage result),
                          totalTokens = total_tokens (api_usage result)\<rparr>,
                 echoModel = response_model result\<rparr>,
                cacheTTL (total_tokens (api_usage result)))]\<rparr>"
  using assms by (simp add: generateText_def Let_def)

text \<open>The spec's first scenario: \<open>Hello\<close> on an empty cache, answered at the first attempt.\<close>

lemma answering_backend_run:
  "executeWithRetry (answering_backend request) no_options = (Inr hi_there, [Attempted 0])"
  by (simp add: run_defs answering_backend_def)

lemma verbose_backend_run:
  "executeWithRetry (verbose_backend request) no_options = (Inr long_answer, [Attempted 0])"
  by (simp add: run_defs verbose_backend_def)

lemma hello_caching: "default_to True (useCaching hello_params)"
  by (simp add: hello_params_def default_to_def)

lemma hello_run:
  "generateText answering_backend hello_params Map.empty =
     \<lparr>returned = Inr hi_there_data,
      cacheAfter = cache_set Map.empty (params_key hello_params) hi_there_data 1800,
      backendEvents = [Attempted 0],
      cacheWrites = [(params_key hello_params, hi_there_data, 1800)]\<rparr>"
  using generateText_generated [OF hello_caching _ answering_backend_run,
      of Map.empty "''Hi there''" "[]"]
  by (simp add: cache_get_def hi_there_def hi_there_data_def cacheTTL_def)

lemma hello_verbose_run:
  "generateText verbose_backend hello_params Map.empty =
     \<lparr>returned = Inr long_answer_data,
      cacheAfter = cache_set Map.empty (params_key hello_params) long_answer_data 20000,
      backendEvents = [Attempted 0],
      cacheWrites = [(params_key hello_params, long_answer_data, 20000)]\<rparr>"
  using generateText_generated [OF hello_caching _ verbose_backend_run,
      of Map.empty "''A long answer''" "[]"]
  by (simp add: cache_get_def long_answer_def long_answer_data_def cacheTTL_def)

text \<open>
  C4. When a generation succeeds after a miss, caching enabled, \<open>generateText\<close> writes
  exactly one cache entry, under the key of the request, holding the generated result,
  and its time to live is \<open>clamp(totalTokens * 20, 1800, 86400)\<close> for the total token
  count that the backend reported for this generation; it lies between 1800 and 86400
  seconds (for every token count, negative ones included). And whatever \<open>generateText\<close>
  writes to the cache, it writes after a successful generation with that time to live.
\<close>

theorem generateText_cache_ttl:
  "(default_to True (useCaching ps) \<and> cache_get c (params_key ps) = None \<and>
    executeWithRetry (backend (build_request ps)) no_options = (Inr result, trace) \<and>
    choices result = generatedText # others \<longrightarrow>
      map (\<lambda>(key, v, ttl). (key, resultText v, totalTokens (usage v), ttl))
          (cacheWrites (generateText backend ps c)) =
        [(params_key ps, generatedText, total_tokens (api_usage result),
          clamp (total_tokens (api_usage result) * 20) 1800 86400)] \<and>
      map_option entry_ttl (cacheAfter (generateText backend ps c) (params_key ps)) =
        Some (clamp (total_tokens (api_usage result) * 20) 1800 86400) \<and>
      1800 \<le> clamp (total_tokens (api_usage result) * 20) 1800 86400 \<and>
      clamp (total_tokens (api_usage result) * 20) 1800 86400 \<le> 86400) \<and>
   ((key, v, ttl) \<in> set (cacheWrites (generateText backend ps c)) \<longrightarrow>
      (\<exists>result trace.
         executeWithRetry (backend (build_request ps)) no_options = (Inr result, trace) \<and>
         ttl = clamp (total_tokens (api_usage result) * 20) 1800 86400) \<and>
      ttl = clamp (totalTokens (usage v) * 20) 1800 86400 \<and> 1800 \<le> ttl \<and> ttl \<le> 86400 \<and>
      returned (generateText backend ps c) = Inr v \<and>
      cacheAfter (generateText backend ps c) key = Some \<lparr>entry_value = v, entry_ttl = ttl\<rparr>)"
proof -
  have generated:
    "map (\<lambda>(key, v, ttl). (key, resultText v, totalTokens (usage v), ttl))
          (cacheWrites (generateText backend ps c)) =
        [(params_key ps, generatedText, total_tokens (api_usage result),
          clamp (total_tokens (api_usage result) * 20) 1800 86400)] \<and>
      map_option entry_ttl (cacheAfter (generateText backend ps c) (params_key ps)) =
        Some (clamp (total_tokens (api_usage result) * 20) 1800 86400) \<and>
      1800 \<le> clamp (total_tokens (api_usage result) * 20) 1800 86400 \<and>
      clamp (total_tokens (api_usage result) * 20) 1800 86400 \<le> 86400"
    if h: "default_to True (useCaching ps) \<and> cache_get c (params_key ps) = None \<and>
      executeWithRetry (backend (build_request ps)) no_options = (Inr result, trace) \<and>
      choices result = generatedText # others"
  proof -
    have run: "generateText backend ps c = \<lparr>returned =
              Inr \<lparr>resultText = generatedText,
                   usage = \<lparr>promptTokens = prompt_tokens (api_usage result),
                            completionTokens = completion_tokens (api_usage result),
                            totalTokens = total_tokens (api_usage result)\<rparr>,
                   echoModel = response_model result\<rparr>,
            cacheAfter =
              cache_set c (params_key ps)
                \<lparr>resultText = generatedText,
                 usage = \<lparr>promptTokens = prompt_tokens (api_usage result),
                          completionTokens = completion_tokens (api_usage result),
                          totalTokens = total_tokens (api_usage result)\<rparr>,
                 echoModel = response_model result\<rparr>
                (cacheTTL (total_tokens (api_usage result))),
            backendEvents = trace,
            cacheWrites =
              [(params_key ps,
                \<lparr>resultText = generatedText,
                 usage = \<lparr>promptTokens = prompt_tokens (api_usage result),
                          completionTokens = completion_tokens (api_usage result),
                          totalTokens = total_tokens (api_usage result)\<rparr>,
                 echoModel = response_model result\<rparr>,
                cacheTTL (total_tokens (api_usage result)))]\<rparr>"
      using h by (intro generateText_generated) simp_all
    show ?thesis
      using cacheTTL_bounds [of "total_tokens (api_usage result)"]
      by (simp add: run cache_set_def cacheTTL_clamp)
  qed
  have written: "(\<exists>result trace.
         executeWithRetry (backend (build_request ps)) no_options = (Inr result, trace) \<and>
         ttl = clamp (total_tokens (api_usage result) * 20) 1800 86400) \<and>
      ttl = clamp (totalTokens (usage v) * 20) 1800 86400 \<and> 1800 \<le> ttl \<and> ttl \<le> 86400 \<and>
      returned (generateText backend ps c) = Inr v \<and>
      cacheAfter (generateText backend ps c) key = Some \<lparr>entry_value = v, entry_ttl = ttl\<rparr>"
    if w: "(key, v, ttl) \<in> set (cacheWrites (generateText backend ps c))"
    using generateText_writes [OF w] generateText_writes_reported [OF w]
      cacheTTL_bounds [of "totalTokens (usage v)"]
    by (simp add: cacheTTL_clamp cache_set_def)
  show ?thesis using generated written by blast
qed

theorem generateText_cache_ttl_witness:
  "default_to True (useCaching hello_params) \<and>
   cache_get Map.empty (params_key hello_params) = None \<and>
   executeWithRetry (answering_backend (build_request hello_params)) no_options =
     (Inr hi_there, [Attempted 0]) \<and>
   choices hi_there = [''Hi there''] \<and> total_tokens (api_usage hi_there) = 8 \<and>
   cacheWrites (generateText answering_backend hello_params Map.empty) =
     [(params_key hello_params, hi_there_data, 1800)] \<and>
   clamp (total_tokens (api_usage hi_there) * 20) 1800 86400 = 1800 \<and>
   executeWithRetry (verbose_backend (build_request hello_params)) no_options =
     (Inr long_answer, [Attempted 0]) \<and>
   choices long_answer = [''A long answer''] \<and> total_tokens (api_usage long_answer) = 1000 \<and>
   cacheWrites (generateText verbose_backend hello_params Map.empty) =
     [(params_key hello_params, long_answer_data, 20000)] \<and>
   clamp (total_tokens (api_usage long_answer) * 20) 1800 86400 = 20000 \<and>
   map_option entry_ttl
     (cacheAfter (generateText verbose_backend hello_params Map.empty) (params_key hello_params)) =
     Some 20000 \<and>
   (params_key hello_params, long_answer_data, 20000)
     \<in> set (cacheWrites (generateText verbose_backend hello_params Map.empty)) \<and>
   returned (generateText verbose_backend hello_params Map.empty) = Inr long_answer_data"
proof -
  have miss: "cache_get Map.empty (params_key hello_params) = None"
    by (simp add: cache_get_def)
  have c1: "choices hi_there = [''Hi there'']" "total_tokens (api_usage hi_there) = 8"
    by (simp_all add: hi_there_def)
  have c2: "choices long_answer = [''A long answer'']" "total_tokens (api_usage long_answer) = 1000"
    by (simp_all add: long_answer_def)
  show ?thesis
    using generateText_cache_ttl [of hello_params Map.empty answering_backend hi_there
        "[Attempted 0]" "''Hi there''" "[]" "params_key hello_params" hi_there_data 1800]
      generateText_cache_ttl [of hello_params Map.empty verbose_backend long_answer
        "[Attempted 0]" "''A long answer''" "[]" "params_key hello_params" long_answer_data 20000]
      hello_caching miss c1 c2
    by (simp add: hello_run hello_verbose_run answering_backend_run verbose_backend_run
          clamp_def)
qed

section \<open>Cache key\<close>

subsection \<open>UTF-8 is injective on well-formed text\<close>

lemma pair_roundtrip:
  assumes "high_surrogate u" "low_surrogate v"
  shows "units_of (65536 + (u - 55296) * 1024 + (v - 56320)) = [u, v]"
proof -
  have l: "v - 56320 < 1024" and v: "56320 \<le> v" using assms(2) by (auto simp: low_surrogate_def)
  have u: "55296 \<le> u" using assms(1) by (simp add: high_surrogate_def)
  have "((u - 55296) * 1024 + (v - 56320)) div 1024 = u - 55296" using l by simp
  moreover have "((u - 55296) * 1024 + (v - 56320)) mod 1024 = v - 56320" using l by simp
  ultimately show ?thesis using u v by (simp add: units_of_def)
qed

lemma code_points_roundtrip: "well_formed s \<Longrightarrow> concat (map units_of (code_points s)) = s"
proof (induction s rule: code_points.induct)
  case 1
  then show ?case by simp
next
  case (2 u)
  then show ?case by (simp add: scalar_of_def units_of_def)
next
  case (3 u v rest)
  show ?case
  proof (cases "high_surrogate u")
    case True
    then show ?thesis using 3 by (simp add: pair_roundtrip)
  next
    case False
    then show ?thesis using 3 by (simp add: scalar_of_def units_of_def)
  qed
qed

lemma code_points_inj:
  "well_formed s \<Longrightarrow> well_formed t \<Longrightarrow> code_points s = code_points t \<Longrightarrow> s = t"
  by (metis code_points_roundtrip)

lemma code_points_range: "well_formed s \<Longrightarrow> c \<in> set (code_points s) \<Longrightarrow> c < 1114112"
proof (induction s rule: code_points.induct)
  case 1
  then show ?case by simp
next
  case (2 u)
  then show ?case by (simp add: scalar_of_def)
next
  case (3 u v rest)
  show ?case
  proof (cases "high_surrogate u")
    case True
    then have "u < 56320" "v < 57344" using 3 by (simp_all add: high_surrogate_def low_surrogate_def)
    then have "65536 + (u - 55296) * 1024 + (v - 56320) < 1114112" by simp
    then show ?thesis using True 3 by auto
  next
    case False
    then show ?thesis using 3 by (auto simp: scalar_of_def)
  qed
qed

lemma split2: fixes a b :: nat shows "a div 64 = b div 64 \<Longrightarrow> a mod 64 = b mod 64 \<Longrightarrow> a = b"
  by (metis div_mult_mod_eq)

lemma split3:
  fixes a b :: nat
  assumes "a div 4096 = b div 4096" "a div 64 mod 64 = b div 64 mod 64" "a mod 64 = b mod 64"
  shows "a = b"
proof -
  have "a div 64 div 64 = b div 64 div 64" using assms(1) by (simp add: div_mult2_eq [symmetric])
  then have "a div 64 = b div 64" using assms(2) by (rule split2)
  then show ?thesis using assms(3) by (rule split2)
qed

lemma split4:
  fixes a b :: nat
  assumes "a div 262144 = b div 262144" "a div 4096 mod 64 = b div 4096 mod 64"
    "a div 64 mod 64 = b div 64 mod 64" "a mod 64 = b mod 64"
  shows "a = b"
proof -
  have "a div 4096 div 64 = b div 4096 div 64" using assms(1) by (simp add: div_mult2_eq [symmetric])
  then have "a div 4096 = b div 4096" using assms(2) by (rule split2)
  then show ?thesis using assms(3,4) by (rule split3)
qed

lemma utf8_bytes_1: "c < 128 \<Longrightarrow> utf8_bytes c = [c]"
  by (simp add: utf8_bytes_def)

lemma utf8_bytes_2: "128 \<le> c \<Longrightarrow> c < 2048 \<Longrightarrow> utf8_bytes c = [192 + c div 64, 128 + c mod 64]"
  by (simp add: utf8_bytes_def)

lemma utf8_bytes_3:
  "2048 \<le> c \<Longrightarrow> c < 65536 \<Longrightarrow>
     utf8_bytes c = [224 + c div 4096, 128 + c div 64 mod 64, 128 + c mod 64]"
  by (simp add: utf8_bytes_def)

lemma utf8_bytes_4:
  "65536 \<le> c \<Longrightarrow>
     utf8_bytes c = [240 + c div 262144, 128 + c div 4096 mod 64, 128 + c div 64 mod 64, 128 + c mod 64]"
  by (simp add: utf8_bytes_def)

lemma lead_length_hd: "c < 1114112 \<Longrightarrow> lead_length (hd (utf8_bytes c)) = utf8_length c"
proof -
  consider "c < 128" | "128 \<le> c" "c < 2048" | "2048 \<le> c" "c < 65536" | "65536 \<le> c"
    by linarith
  then show ?thesis
  proof cases
    case 1
    then show ?thesis by (simp add: utf8_bytes_1 lead_length_def utf8_length_def)
  next
    case 2
    then have "c div 64 < 32" by simp
    then show ?thesis using 2 by (simp add: utf8_bytes_2 lead_length_def utf8_length_def)
  next
    case 3
    then have "c div 4096 < 16" by simp
    then show ?thesis using 3 by (simp add: utf8_bytes_3 lead_length_def utf8_length_def)
  next
    case 4
    then show ?thesis by (simp add: utf8_bytes_4 lead_length_def utf8_length_def)
  qed
qed

lemma utf8_bytes_not_Nil [simp]: "utf8_bytes c \<noteq> []"
  by (simp add: utf8_bytes_def)

lemma utf8_prefix:
  assumes a: "a < 1114112" and b: "b < 1114112" and eq: "utf8_bytes a @ r = utf8_bytes b @ r'"
  shows "a = b"
proof -
  have "hd (utf8_bytes a) = hd (utf8_bytes b)"
    using arg_cong [OF eq, of hd] by simp
  then have len: "utf8_length a = utf8_length b"
    using lead_length_hd [OF a] lead_length_hd [OF b] by simp
  consider "a < 128" | "128 \<le> a" "a < 2048" | "2048 \<le> a" "a < 65536" | "65536 \<le> a"
    by linarith
  then show ?thesis
  proof cases
    case 1
    then have "b < 128" using len by (simp add: utf8_length_def split: if_splits)
    then show ?thesis using 1 eq by (simp add: utf8_bytes_1)
  next
    case 2
    then have "128 \<le> b" "b < 2048" using len by (simp_all add: utf8_length_def split: if_splits)
    then have "a div 64 = b div 64" "a mod 64 = b mod 64"
      using 2 eq by (simp_all add: utf8_bytes_2)
    then show ?thesis by (rule split2)
  next
    case 3
    then have "2048 \<le> b" "b < 65536" using len by (simp_all add: utf8_length_def split: if_splits)
    then have "a div 4096 = b div 4096" "a div 64 mod 64 = b div 64 mod 64" "a mod 64 = b mod 64"
      using 3 eq by (simp_all add: utf8_bytes_3)
    then show ?thesis by (rule split3)
  next
    case 4
    then have "65536 \<le> b" using len by (simp add: utf8_length_def split: if_splits)
    then have "a div 262144 = b div 262144" "a div 4096 mod 64 = b div 4096 mod 64"
      "a div 64 mod 64 = b div 64 mod 64" "a mod 64 = b mod 64"
      using 4 eq by (simp_all add: utf8_bytes_4)
    then show ?thesis by (rule split4)
  qed
qed

lemma concat_utf8_inj:
  assumes "\<forall>c \<in> set xs. c < 1114112" "\<forall>c \<in> set ys. c < 1114112"
    and "concat (map utf8_bytes xs) = concat (map utf8_bytes ys)"
  shows "xs = ys"
  using assms
proof (induction xs arbitrary: ys)
  case Nil
  then show ?case by (cases ys) simp_all
next
  case (Cons x xs)
  show ?case
  proof (cases ys)
    case Nil
    then show ?thesis using Cons.prems by simp
  next
    case (Cons y ys')
    have eq: "utf8_bytes x @ concat (map utf8_bytes xs) = utf8_bytes y @ concat (map utf8_bytes ys')"
      using Cons.prems Cons by simp
    have "x < 1114112" "y < 1114112" using Cons.prems Cons by simp_all
    then have xy: "x = y" using eq by (rule utf8_prefix)
    then have "concat (map utf8_bytes xs) = concat (map utf8_bytes ys')" using eq by simp
    then have "xs = ys'" using Cons.IH [of ys'] Cons.prems Cons by simp
    then show ?thesis using xy Cons by simp
  qed
qed

lemma utf8_bytes_bytes:
  assumes "c < 1114112" and "b \<in> set (utf8_bytes c)"
  shows "b < 256"
proof -
  consider "c < 128" | "128 \<le> c" "c < 2048" | "2048 \<le> c" "c < 65536" | "65536 \<le> c"
    by linarith
  then show ?thesis
  proof cases
    case 1
    then show ?thesis using assms by (simp add: utf8_bytes_1)
  next
    case 2
    then have "c div 64 < 32" "c mod 64 < 64" by simp_all
    then show ?thesis using 2 assms by (auto simp add: utf8_bytes_2)
  next
    case 3
    then have "c div 4096 < 16" "c div 64 mod 64 < 64" "c mod 64 < 64" by simp_all
    then show ?thesis using 3 assms by (auto simp add: utf8_bytes_3)
  next
    case 4
    then have "c div 262144 < 5" "c div 4096 mod 64 < 64" "c div 64 mod 64 < 64" "c mod 64 < 64"
      using assms(1) by simp_all
    then show ?thesis using 4 assms by (auto simp add: utf8_bytes_4)
  qed
qed

lemma Buffer_from_inj:
  assumes "well_formed s" "well_formed t" "Buffer_from s = Buffer_from t"
  shows "s = t"
proof -
  have "\<forall>c \<in> set (code_points s). c < 1114112" "\<forall>c \<in> set (code_points t). c < 1114112"
    using assms(1,2) code_points_range by blast+
  then have "code_points s = code_points t"
    using assms(3) unfolding Buffer_from_def by (rule concat_utf8_inj)
  with assms(1,2) show ?thesis by (rule code_points_inj)
qed

lemma Buffer_from_bytes:
  assumes "well_formed s" and "b \<in> set (Buffer_from s)"
  shows "b < 256"
proof -
  from assms(2) obtain c where "c \<in> set (code_points s)" "b \<in> set (utf8_bytes c)"
    by (auto simp: Buffer_from_def)
  then show ?thesis using code_points_range [OF assms(1)] utf8_bytes_bytes by blast
qed

subsection \<open>Base64 is injective on bytes\<close>

lemma sextet_hi2:
  fixes a b :: nat shows "b < 256 \<Longrightarrow> ((a mod 4) * 16 + b div 16) div 16 = a mod 4"
  by simp

lemma sextet_lo2:
  fixes a b :: nat shows "b < 256 \<Longrightarrow> ((a mod 4) * 16 + b div 16) mod 16 = b div 16"
  by simp

lemma sextet_hi3:
  fixes b c :: nat shows "c < 256 \<Longrightarrow> ((b mod 16) * 4 + c div 64) div 4 = b mod 16"
  by simp

lemma sextet_lo3:
  fixes b c :: nat shows "c < 256 \<Longrightarrow> ((b mod 16) * 4 + c div 64) mod 4 = c div 64"
  by simp

lemma sextet_less:
  fixes a b c :: nat
  assumes "a < 256" "b < 256" "c < 256"
  shows "a div 4 < 64" "(a mod 4) * 16 + b div 16 < 64" "(b mod 16) * 4 + c div 64 < 64"
    "c mod 64 < 64"
proof -
  show "a div 4 < 64" using assms by simp
  have "a mod 4 \<le> 3" "b div 16 \<le> 15" using assms by simp_all
  then show "(a mod 4) * 16 + b div 16 < 64" by linarith
  have "b mod 16 \<le> 15" "c div 64 \<le> 3" using assms by simp_all
  then show "(b mod 16) * 4 + c div 64 < 64" by linarith
  show "c mod 64 < 64" by simp
qed

lemma sextet_less_simps [simp]:
  fixes a b c :: nat
  shows "a < 256 \<Longrightarrow> a div 4 < 64"
    and "b < 256 \<Longrightarrow> a mod 4 * 16 + b div 16 < 64"
    and "a mod 4 * 16 < 64"
    and "c < 256 \<Longrightarrow> b mod 16 * 4 + c div 64 < 64"
    and "b mod 16 * 4 < 64"
    and "c mod 64 < 64"
  using sextet_less [of a b c] sextet_less [of 0 b c] sextet_less [of a 0 0] sextet_less [of 0 b 0]
  by simp_all

text \<open>Four sextets determine the three bytes: each byte is read back by \<open>div\<close> and \<open>mod\<close>.\<close>

lemma sextets_inj:
  fixes a b c a' b' c' :: nat
  assumes "b < 256" "b' < 256" "c < 256" "c' < 256"
    and s1: "a div 4 = a' div 4"
    and s2: "(a mod 4) * 16 + b div 16 = (a' mod 4) * 16 + b' div 16"
    and s3: "(b mod 16) * 4 + c div 64 = (b' mod 16) * 4 + c' div 64"
    and s4: "c mod 64 = c' mod 64"
  shows "a = a' \<and> b = b' \<and> c = c'"
proof -
  have "a mod 4 = a' mod 4"
    using arg_cong [OF s2, of "\<lambda>x. x div 16"] assms(1,2) by (simp only: sextet_hi2)
  then have a: "a = a'" using s1 by (metis div_mult_mod_eq)
  have bd: "b div 16 = b' div 16"
    using arg_cong [OF s2, of "\<lambda>x. x mod 16"] assms(1,2) by (simp only: sextet_lo2)
  have "b mod 16 = b' mod 16"
    using arg_cong [OF s3, of "\<lambda>x. x div 4"] assms(3,4) by (simp only: sextet_hi3)
  then have b: "b = b'" using bd by (metis div_mult_mod_eq)
  have "c div 64 = c' div 64"
    using arg_cong [OF s3, of "\<lambda>x. x mod 4"] assms(3,4) by (simp only: sextet_lo3)
  then have c: "c = c'" using s4 by (metis div_mult_mod_eq)
  show ?thesis using a b c by simp
qed

lemma distinct_alphabet: "distinct base64_alphabet"
  unfolding base64_alphabet_def by simp

lemma length_alphabet: "length base64_alphabet = 64"
  unfolding base64_alphabet_def by simp

lemma b64char_eq: "m < 64 \<Longrightarrow> n < 64 \<Longrightarrow> (b64char m = b64char n) = (m = n)"
  by (simp add: b64char_def nth_eq_iff_index_eq distinct_alphabet length_alphabet)

lemma b64char_pad [simp]:
  assumes "n < 64"
  shows "b64char n \<noteq> CHR ''=''" "CHR ''='' \<noteq> b64char n"
    "b64char n \<noteq> CHR '':''" "CHR '':'' \<noteq> b64char n"
proof -
  have "b64char n \<in> set base64_alphabet"
    using assms by (simp add: b64char_def length_alphabet)
  then have "b64char n \<noteq> CHR ''='' \<and> b64char n \<noteq> CHR '':''"
    unfolding base64_alphabet_def by auto
  then show "b64char n \<noteq> CHR ''=''" "CHR ''='' \<noteq> b64char n"
    "b64char n \<noteq> CHR '':''" "CHR '':'' \<noteq> b64char n" by auto
qed

lemma bytes_simps [simp]: "bytes []" "bytes (x # xs) = (x < 256 \<and> bytes xs)"
  by (auto simp: bytes_def)

lemma base64_eq_Nil [simp]: "base64 xs = [] \<longleftrightarrow> xs = []"
  by (cases xs rule: base64.cases) simp_all

lemma base64_inj: "bytes xs \<Longrightarrow> bytes ys \<Longrightarrow> base64 xs = base64 ys \<Longrightarrow> xs = ys"
proof (induction xs arbitrary: ys rule: base64.induct)
  case 1
  then show ?case using base64_eq_Nil [of ys] by simp
next
  case (2 a)
  show ?case
  proof (cases ys rule: base64.cases)
    case 1
    then show ?thesis using 2 by simp
  next
    case (2 a')
    have "a = a' \<and> (0::nat) = 0 \<and> (0::nat) = 0"
      using "2.prems" 2 by (intro sextets_inj) (simp_all add: b64char_eq)
    then show ?thesis using 2 by simp
  next
    case (3 a' b')
    then show ?thesis using "2.prems" by simp
  next
    case (4 a' b' c' rest)
    then show ?thesis using "2.prems" by simp
  qed
next
  case (3 a b)
  show ?case
  proof (cases ys rule: base64.cases)
    case 1
    then show ?thesis using 3 by simp
  next
    case (2 a')
    then show ?thesis using "3.prems" by simp
  next
    case (3 a' b')
    have "a = a' \<and> b = b' \<and> (0::nat) = 0"
      using "3.prems" 3 by (intro sextets_inj) (simp_all add: b64char_eq)
    then show ?thesis using 3 by simp
  next
    case (4 a' b' c' rest)
    then show ?thesis using "3.prems" by simp
  qed
next
  case (4 a b c rest)
  show ?case
  proof (cases ys rule: base64.cases)
    case 1
    then show ?thesis using "4.prems" by simp
  next
    case (2 a')
    then show ?thesis using "4.prems" by simp
  next
    case (3 a' b')
    then show ?thesis using "4.prems" by simp
  next
    case (4 a' b' c' rest')
    have abc: "a = a' \<and> b = b' \<and> c = c'"
      using "4.prems" 4 by (intro sextets_inj) (simp_all add: b64char_eq)
    have "base64 rest = base64 rest'" using "4.prems" 4 by simp
    then have "rest = rest'" using "4.IH" [of rest'] "4.prems" 4 by simp
    then show ?thesis using abc 4 by simp
  qed
qed

lemma base64_no_colon: "bytes xs \<Longrightarrow> CHR '':'' \<notin> set (base64 xs)"
  by (induction xs rule: base64.induct) simp_all

lemma bytes_Buffer_from: "well_formed s \<Longrightarrow> bytes (Buffer_from s)"
  using Buffer_from_bytes by (auto simp: bytes_def)

lemma toBase64_inj:
  assumes "well_formed s" and "well_formed t" and "toBase64 s = toBase64 t"
  shows "s = t"
proof -
  have "Buffer_from s = Buffer_from t"
    using assms(3) unfolding toBase64_def
    by (rule base64_inj [OF bytes_Buffer_from [OF assms(1)] bytes_Buffer_from [OF assms(2)]])
  with assms(1,2) show ?thesis by (rule Buffer_from_inj)
qed

lemma toBase64_no_colon: "well_formed s \<Longrightarrow> CHR '':'' \<notin> set (toBase64 s)"
  unfolding toBase64_def by (rule base64_no_colon [OF bytes_Buffer_from])

subsection \<open>The key is read back from its end\<close>

lemma split_at_last_colon:
  assumes "CHR '':'' \<notin> set b" and "CHR '':'' \<notin> set b'"
    and "a @ CHR '':'' # b = a' @ CHR '':'' # b'"
  shows "a = a' \<and> b = b'"
proof -
  from assms(3) obtain us where
    "(a = a' @ us \<and> us @ CHR '':'' # b = CHR '':'' # b') \<or>
     (a @ us = a' \<and> CHR '':'' # b = us @ CHR '':'' # b')"
    by (auto simp: append_eq_append_conv2)
  then show ?thesis
  proof
    assume h: "a = a' @ us \<and> us @ CHR '':'' # b = CHR '':'' # b'"
    show ?thesis
    proof (cases us)
      case Nil
      then show ?thesis using h by simp
    next
      case (Cons u us')
      then have "b' = us' @ CHR '':'' # b" using h by simp
      then show ?thesis using assms(2) by simp
    qed
  next
    assume h: "a @ us = a' \<and> CHR '':'' # b = us @ CHR '':'' # b'"
    show ?thesis
    proof (cases us)
      case Nil
      then show ?thesis using h by simp
    next
      case (Cons u us')
      then have "b = us' @ CHR '':'' # b'" using h by simp
      then show ?thesis using assms(1) by simp
    qed
  qed
qed

lemma number_literal_no_colon: "number_literal n \<Longrightarrow> CHR '':'' \<notin> set n"
  by (auto simp: number_literal_def)

lemma cacheKey_eq_iff:
  assumes "number_literal t" and "number_literal n" and "number_literal t'" and "number_literal n'"
    and wp: "well_formed p" and ws: "well_formed s"
    and wp': "well_formed p'" and ws': "well_formed s'"
  shows "(cacheKey m t n p s = cacheKey m' t' n' p' s') =
           (m = m' \<and> t = t' \<and> n = n' \<and> p = p' \<and> s = s')"
proof
  assume "m = m' \<and> t = t' \<and> n = n' \<and> p = p' \<and> s = s'"
  then show "cacheKey m t n p s = cacheKey m' t' n' p' s'" by simp
next
  assume eq: "cacheKey m t n p s = cacheKey m' t' n' p' s'"
  note nc = number_literal_no_colon
  note bc = toBase64_no_colon
  have "(m @ CHR '':'' # t @ CHR '':'' # n @ CHR '':'' # toBase64 p) @ CHR '':'' # toBase64 s =
        (m' @ CHR '':'' # t' @ CHR '':'' # n' @ CHR '':'' # toBase64 p') @ CHR '':'' # toBase64 s'"
    using eq by (simp add: cacheKey_def)
  from split_at_last_colon [OF bc [OF ws] bc [OF ws'] this]
  have e4: "(m @ CHR '':'' # t @ CHR '':'' # n) @ CHR '':'' # toBase64 p =
            (m' @ CHR '':'' # t' @ CHR '':'' # n') @ CHR '':'' # toBase64 p'"
    and s: "toBase64 s = toBase64 s'" by simp_all
  from split_at_last_colon [OF bc [OF wp] bc [OF wp'] e4]
  have e3: "(m @ CHR '':'' # t) @ CHR '':'' # n = (m' @ CHR '':'' # t') @ CHR '':'' # n'"
    and p: "toBase64 p = toBase64 p'" by simp_all
  from split_at_last_colon [OF nc [OF assms(2)] nc [OF assms(4)] e3]
  have e2: "m @ CHR '':'' # t = m' @ CHR '':'' # t'" and n: "n = n'" by simp_all
  from split_at_last_colon [OF nc [OF assms(1)] nc [OF assms(3)] e2]
  have "m = m'" and "t = t'" by simp_all
  then show "m = m' \<and> t = t' \<and> n = n' \<and> p = p' \<and> s = s'"
    using n toBase64_inj [OF wp wp' p] toBase64_inj [OF ws ws' s] by simp
qed

lemma params_key_eq_iff:
  assumes "typed_request ps" and "typed_request ps'"
  shows "(params_key ps = params_key ps') = (key_fields ps = key_fields ps')"
  using assms unfolding typed_request_def params_key_def key_fields_def
  by (simp add: cacheKey_eq_iff)

lemmas text_defs =
  ascii_def Buffer_from_def utf8_bytes_def scalar_of_def high_surrogate_def low_surrogate_def
  toBase64_def b64char_def base64_alphabet_def

lemma hello_key: "params_key hello_params = ''openai:text:gpt-4:0.7:1000:SGVsbG8=:''"
  by (simp add: params_key_def hello_params_def default_to_def cacheKey_def text_defs)

lemma emoji_key: "params_key emoji_params = ''openai:text:gpt-4:0.7:1000:8J+YgA==:''"
  by (simp add: params_key_def emoji_params_def hello_params_def default_to_def cacheKey_def
        text_defs)

lemma replacement_key: "params_key replacement_params = ''openai:text:gpt-4:0.7:1000:77+9:''"
  by (simp add: params_key_def replacement_params_def hello_params_def default_to_def
        cacheKey_def text_defs)

lemma lone_surrogate_key:
  "params_key lone_surrogate_params = ''openai:text:gpt-4:0.7:1000:77+9:''"
  by (simp add: params_key_def lone_surrogate_params_def hello_params_def default_to_def
        cacheKey_def text_defs)

text \<open>
  C5, as stated, fails. A prompt is a JavaScript string, in which a surrogate may stand
  alone; \<open>Buffer.from\<close> encodes a lone surrogate as \<open>U+FFFD\<close>. The prompt made of the
  lone surrogate \<open>U+D800\<close> and the prompt \<open>U+FFFD\<close> differ, all other fields being
  equal, and the two requests get the same key.
\<close>

theorem params_key_collides_on_lone_surrogate:
  "prompt lone_surrogate_params = [55296] \<and> prompt replacement_params = [65533] \<and>
   key_fields lone_surrogate_params \<noteq> key_fields replacement_params \<and>
   Buffer_from (prompt lone_surrogate_params) = [239, 191, 189] \<and>
   Buffer_from (prompt replacement_params) = [239, 191, 189] \<and>
   params_key lone_surrogate_params = ''openai:text:gpt-4:0.7:1000:77+9:'' \<and>
   params_key lone_surrogate_params = params_key replacement_params"
  by (simp add: lone_surrogate_key replacement_key)
     (simp add: lone_surrogate_params_def replacement_params_def hello_params_def
        key_fields_def text_defs)

text \<open>
  C5, amended. The key is a function of (model, temperature, maxTokens, prompt,
  systemPrompt), the backend being the constant prefix \<open>openai:text:\<close> of this service:
  the key of a request is the template over its own fields. For requests whose
  temperature and maxTokens are numbers and whose prompt and system prompt are well-formed
  text (no unpaired surrogate), the keys of two requests are equal if and only if all five
  fields are equal; and every cache write of a call goes to the key that the call looked
  up.
\<close>

theorem params_key_injective:
  assumes "typed_request ps" and "typed_request ps'"
  shows "((params_key ps = params_key ps') = (key_fields ps = key_fields ps')) \<and>
         (model ps = Some m \<and> temperature ps = Some t \<and> maxTokens ps = Some n \<and>
          systemPrompt ps = Some s \<longrightarrow>
            key_fields ps = (m, t, n, prompt ps, s) \<and>
            params_key ps =
              ''openai:text:'' @ m @ '':'' @ t @ '':'' @ n @ '':'' @
              base64 (Buffer_from (prompt ps)) @ '':'' @ base64 (Buffer_from s)) \<and>
         fst ` set (cacheWrites (generateText backend ps c)) \<subseteq> {params_key ps}"
proof -
  have fields: "key_fields ps = (m, t, n, prompt ps, s) \<and>
            params_key ps =
              ''openai:text:'' @ m @ '':'' @ t @ '':'' @ n @ '':'' @
              base64 (Buffer_from (prompt ps)) @ '':'' @ base64 (Buffer_from s)"
    if "model ps = Some m \<and> temperature ps = Some t \<and> maxTokens ps = Some n \<and>
          systemPrompt ps = Some s"
    using that
    by (simp add: key_fields_def params_key_def cacheKey_def default_to_def toBase64_def)
  have writes: "fst ` set (cacheWrites (generateText backend ps c)) \<subseteq> {params_key ps}"
    using generateText_writes [of _ _ _ backend ps c] by fastforce
  show ?thesis using params_key_eq_iff [OF assms] fields writes by blast
qed

theorem params_key_injective_witness:
  "typed_request hello_params \<and> typed_request hello_again_params \<and>
   typed_request emoji_params \<and> typed_request explicit_params \<and>
   key_fields hello_params \<noteq> key_fields hello_again_params \<and>
   params_key hello_params \<noteq> params_key hello_again_params \<and>
   params_key hello_params = ''openai:text:gpt-4:0.7:1000:SGVsbG8=:'' \<and>
   params_key emoji_params = ''openai:text:gpt-4:0.7:1000:8J+YgA==:'' \<and>
   params_key hello_params \<noteq> params_key emoji_params \<and>
   model explicit_params = Some ''gpt-3.5-turbo'' \<and> temperature explicit_params = Some ''0.2'' \<and>
   maxTokens explicit_params = Some ''50'' \<and>
   systemPrompt explicit_params = Some (ascii ''Be brief'') \<and>
   params_key explicit_params = ''openai:text:gpt-3.5-turbo:0.2:50:SGVsbG8=:QmUgYnJpZWY='' \<and>
   map fst (cacheWrites (generateText answering_backend hello_params Map.empty)) =
     [params_key hello_params]"
proof -
  have typed: "typed_request hello_params" "typed_request hello_again_params"
    "typed_request emoji_params" "typed_request explicit_params"
    by (simp_all add: typed_request_def hello_params_def hello_again_params_def emoji_params_def
          explicit_params_def default_to_def number_literal_def ascii_def high_surrogate_def
          low_surrogate_def)
  have differ: "key_fields hello_params \<noteq> key_fields hello_again_params"
    "key_fields hello_params \<noteq> key_fields emoji_params"
    by (simp_all add: key_fields_def hello_params_def hello_again_params_def emoji_params_def
          ascii_def)
  have explicit: "model explicit_params = Some ''gpt-3.5-turbo''"
    "temperature explicit_params = Some ''0.2''" "maxTokens explicit_params = Some ''50''"
    "systemPrompt explicit_params = Some (ascii ''Be brief'')"
    "prompt explicit_params = ascii ''Hello''"
    by (simp_all add: explicit_params_def)
  have b1: "base64 (Buffer_from (ascii ''Hello'')) = ''SGVsbG8=''"
    by (simp add: text_defs)
  have b2: "base64 (Buffer_from (ascii ''Be brief'')) = ''QmUgYnJpZWY=''"
    by (simp add: text_defs)
  show ?thesis
    using params_key_injective [OF typed(1) typed(2), of "''gpt-4''" "''0.7''" "''1000''" "[]"
        answering_backend Map.empty]
      params_key_injective [OF typed(1) typed(3), of "''gpt-4''" "''0.7''" "''1000''" "[]"
        answering_backend Map.empty]
      params_key_injective [OF typed(4) typed(4), of "''gpt-3.5-turbo''" "''0.2''" "''50''"
        "ascii ''Be brief''" answering_backend Map.empty]
      typed differ explicit
    by (simp add: hello_run hello_key emoji_key b1 b2)
qed

section \<open>Cache hits\<close>

lemma generateText_hit:
  assumes "default_to True (useCaching ps)" and "cache_get c (params_key ps) = Some cached"
  shows "generateText backend ps c =
           \<lparr>returned = Inr cached, cacheAfter = c, backendEvents = [], cacheWrites = []\<rparr>"
  using assms by (simp add: generateText_def)

lemma generateText_returned_cached:
  assumes "default_to True (useCaching ps)" and "returned (generateText backend ps c) = Inr rd"
  shows "cache_get (cacheAfter (generateText backend ps c)) (params_key ps) = Some rd"
  using assms
  by (auto simp: generateText_def Let_def cache_get_def cache_set_def
           split: option.splits prod.splits sum.splits list.splits)

text \<open>
  C6. With caching enabled, a request whose key is in the cache gets the cached result,
  and the call makes no backend attempt and no cache write and leaves the cache as it
  was; and after any successful call, the same request again, against any backend, is
  such a hit and returns the same result.
\<close>

theorem generateText_cache_hit:
  assumes "default_to True (useCaching ps)"
  shows "(cache_get c (params_key ps) = Some cached \<longrightarrow>
            generateText backend ps c =
              \<lparr>returned = Inr cached, cacheAfter = c, backendEvents = [], cacheWrites = []\<rparr>) \<and>
         (returned (generateText backend ps c) = Inr rd \<longrightarrow>
            generateText backend' ps (cacheAfter (generateText backend ps c)) =
              \<lparr>returned = Inr rd, cacheAfter = cacheAfter (generateText backend ps c),
               backendEvents = [], cacheWrites = []\<rparr>)"
  using assms generateText_hit generateText_returned_cached by blast

theorem generateText_cache_hit_witness:
  "default_to True (useCaching hello_params) \<and>
   returned (generateText answering_backend hello_params Map.empty) = Inr hi_there_data \<and>
   attempts (backendEvents (generateText answering_backend hello_params Map.empty)) = 1 \<and>
   cache_get (cacheAfter (generateText answering_backend hello_params Map.empty))
     (params_key hello_params) = Some hi_there_data \<and>
   generateText failing_backend hello_params
       (cacheAfter (generateText answering_backend hello_params Map.empty)) =
     \<lparr>returned = Inr hi_there_data,
      cacheAfter = cacheAfter (generateText answering_backend hello_params Map.empty),
      backendEvents = [], cacheWrites = []\<rparr>"
proof -
  have on: "default_to True (useCaching hello_params)"
    by (simp add: hello_params_def default_to_def)
  have first: "returned (generateText answering_backend hello_params Map.empty) = Inr hi_there_data"
    by (simp add: hello_run)
  have stored: "cache_get (cacheAfter (generateText answering_backend hello_params Map.empty))
     (params_key hello_params) = Some hi_there_data"
    by (simp add: hello_run cache_get_def cache_set_def)
  show ?thesis
    using generateText_cache_hit [OF on,
        where c = "cacheAfter (generateText answering_backend hello_params Map.empty)"
          and cached = hi_there_data and backend = failing_backend and rd = hi_there_data
          and backend' = failing_backend]
      generateText_cache_hit [OF on, where c = Map.empty and cached = hi_there_data
          and backend = answering_backend and rd = hi_there_data and backend' = failing_backend]
      on first stored
    by (simp add: hello_run)
qed

section \<open>Effective parameters\<close>

text \<open>
  C7, as stated, fails. A request that names \<open>gpt-3.5-turbo\<close> and temperature \<open>0.2\<close>
  and opts in to the stored preferences gets the stored \<open>claude\<close> and \<open>1.5\<close>: with the
  opt-in the preference comes before the explicit value.
\<close>

theorem effectiveModel_not_explicit_first:
  "effectiveModel explicit_turbo_opted_in (Some prefers_claude) \<noteq>
     resolve_by_precedence (req_model explicit_turbo_opted_in)
       (usePreferredModel explicit_turbo_opted_in)
       (stored preferredModel (Some prefers_claude)) ''gpt-4'' \<and>
   effectiveModel explicit_turbo_opted_in (Some prefers_claude) = ''claude'' \<and>
   resolve_by_precedence (req_model explicit_turbo_opted_in)
     (usePreferredModel explicit_turbo_opted_in)
     (stored preferredModel (Some prefers_claude)) ''gpt-4'' = ''gpt-3.5-turbo'' \<and>
   effectiveTemperature explicit_turbo_opted_in (Some prefers_claude) = ''1.5'' \<and>
   resolve_by_precedence (req_temperature explicit_turbo_opted_in)
     (usePreferredSettings explicit_turbo_opted_in)
     (stored defaultTemperature (Some prefers_claude)) ''0.7'' = ''0.2''"
  by (simp add: effectiveModel_def effectiveTemperature_def resolve_by_precedence_def stored_def
        explicit_turbo_opted_in_def prefers_claude_def truthy_number_def)

text \<open>
  C7, amended. The effective model is the stored preferred model when the request opted
  in and one is stored (a non-empty name); when the request did not opt in or nothing is
  stored, it is the explicit request value if present and the default \<open>gpt-4\<close>
  otherwise. The effective temperature likewise, with a stored non-zero temperature and
  the default \<open>0.7\<close>. Both are total functions of request and preference, so never
  undefined.
\<close>

theorem effective_parameters_precedence:
  "(usePreferredModel body \<and> stored preferredModel up = Some m \<and> m \<noteq> [] \<longrightarrow>
      effectiveModel body up = m) \<and>
   (\<not> usePreferredModel body \<or> stored preferredModel up = None \<longrightarrow>
      effectiveModel body up = default_to ''gpt-4'' (req_model body)) \<and>
   (usePreferredSettings body \<and> stored defaultTemperature up = Some t \<and> truthy_number t \<longrightarrow>
      effectiveTemperature body up = t) \<and>
   (\<not> usePreferredSettings body \<or> stored defaultTemperature up = None \<longrightarrow>
      effectiveTemperature body up = default_to ''0.7'' (req_temperature body))"
  by (auto simp: effectiveModel_def effectiveTemperature_def split: option.splits)

theorem effective_parameters_precedence_witness:
  "usePreferredModel explicit_turbo_opted_in \<and>
   stored preferredModel (Some prefers_claude) = Some ''claude'' \<and>
   effectiveModel explicit_turbo_opted_in (Some prefers_claude) = ''claude'' \<and>
   stored preferredModel None = None \<and>
   effectiveModel explicit_turbo_opted_in None = ''gpt-3.5-turbo'' \<and>
   usePreferredSettings explicit_turbo_opted_in \<and>
   stored defaultTemperature (Some prefers_claude) = Some ''1.5'' \<and> truthy_number ''1.5'' \<and>
   effectiveTemperature explicit_turbo_opted_in (Some prefers_claude) = ''1.5'' \<and>
   stored defaultTemperature None = None \<and>
   effectiveTemperature (explicit_turbo_opted_in\<lparr>req_temperature := None\<rparr>) None = ''0.7''"
  using effective_parameters_precedence
      [of explicit_turbo_opted_in "Some prefers_claude" "''claude''" "''1.5''"]
    effective_parameters_precedence [of explicit_turbo_opted_in None "''claude''" "''1.5''"]
    effective_parameters_precedence
      [of "explicit_turbo_opted_in\<lparr>req_temperature := None\<rparr>" None "''claude''" "''1.5''"]
  by (simp add: stored_def explicit_turbo_opted_in_def prefers_claude_def truthy_number_def
        default_to_def)

section \<open>Backend selection\<close>

text \<open>
  C8. For every string, \<open>selectService\<close> yields one adapter: the one the table gives for
  the lowercased name, and the OpenAI adapter for every name the table does not have. It
  has no failing branch.
\<close>

theorem selectService_total_with_default:
  "selectService m =
     (case map_of model_table (toLowerCase m) of Some s \<Rightarrow> s | None \<Rightarrow> OpenaiService) \<and>
   (toLowerCase m \<notin> fst ` set model_table \<longrightarrow> selectService m = OpenaiService)"
  by (auto simp: selectService_def model_table_def Let_def)

theorem selectService_total_with_default_witness:
  "toLowerCase ''Mixtral-8x7B'' \<notin> fst ` set model_table \<and>
   selectService ''Mixtral-8x7B'' = OpenaiService \<and>
   selectService ''Claude-Instant'' = AnthropicService \<and>
   selectService ''GEMINI'' = PalmService \<and>
   selectService ''local-llama'' = LocalLLMService"
  using selectService_total_with_default [of "''Mixtral-8x7B''"]
    selectService_total_with_default [of "''Claude-Instant''"]
    selectService_total_with_default [of "''GEMINI''"]
    selectService_total_with_default [of "''local-llama''"]
  by (simp add: model_table_def toLowerCase_def lower_char_def)

section \<open>Batches\<close>

lemma batch_selectService_openai [simp]: "batch_selectService m = OpenaiService"
  by (simp add: batch_selectService_def Let_def)

lemma item_params_eq_None [simp]: "(item_params temp mdl uid p = None) = (p = PromptNull)"
  by (cases p) simp_all

text \<open>Without a \<open>null\<close> element every callback returns; with one, \<open>map\<close> ends at the first.\<close>

lemma map_filter_no_null:
  "PromptNull \<notin> set ps \<Longrightarrow>
     List.map_filter (item_params temp mdl uid) ps =
       map (\<lambda>p. the (item_params temp mdl uid p)) ps"
  by (induction ps) (auto split: option.splits)

lemma dispatch_calls_completed:
  "PromptNull \<notin> set ps \<Longrightarrow>
     dispatch_calls temp mdl uid ps = Completed (List.map_filter (item_params temp mdl uid) ps)"
  by (induction ps) (auto split: option.splits)

lemma dispatch_calls_aborted:
  "PromptNull \<in> set ps \<Longrightarrow>
     dispatch_calls temp mdl uid ps =
       Aborted (List.map_filter (item_params temp mdl uid) (takeWhile (\<lambda>p. p \<noteq> PromptNull) ps))"
proof (induction ps)
  case Nil
  then show ?case by simp
next
  case (Cons p ps)
  show ?case
  proof (cases "p = PromptNull")
    case True
    then show ?thesis by simp
  next
    case False
    then obtain call where call: "item_params temp mdl uid p = Some call"
      by (cases "item_params temp mdl uid p") simp_all
    have "PromptNull \<in> set ps" using Cons.prems False by auto
    then show ?thesis using Cons.IH False call by simp
  qed
qed

lemma length_batch_calls: "PromptNull \<notin> set ps \<Longrightarrow> length (batch_calls body uid ps) = length ps"
  by (simp add: batch_calls_def map_filter_no_null)


lemma length_batch_results:
  "PromptNull \<notin> set ps \<Longrightarrow> length (batch_results services body uid ps) = length ps"
  by (simp add: batch_results_def processResults_def allSettled_def length_batch_calls)


lemma success_processResult [simp]: "success (processResult s i) = is_fulfilled s"
  by (cases s) (simp_all add: is_fulfilled_def)

lemma index_processResult [simp]: "index (processResult s i) = i"
  by (cases s) simp_all

lemma batchGenerate_in_range:
  assumes "prompts body = PromptArray ps" and "1 \<le> length ps" and "length ps \<le> 10"
    and "PromptNull \<notin> set ps"
  shows "batchGenerate services createMetricsRecord body uid =
           (if createMetricsRecord (batch_record body uid (batch_results services body uid ps))
            then (Ok200 (batch_results services body uid ps)
                    (length (filter success (batch_results services body uid ps))),
                  batch_calls body uid ps)
            else (PassedToNext, batch_calls body uid ps))"
proof -
  have len: "length (processResults (allSettled services OpenaiService (batch_calls body uid ps))) =
      length ps"
    using length_batch_results [OF assms(4), of services body uid] by (simp add: batch_results_def)
  have "ps \<noteq> []" using assms(2) by auto
  then show ?thesis
    using assms(1-3) len
    by (simp add: batchGenerate_def Let_def dispatch_calls_completed [OF assms(4)]
          batch_record_def batch_results_def batch_calls_def [symmetric])
qed

lemma batchGenerate_aborted:
  assumes "prompts body = PromptArray ps" and "1 \<le> length ps" and "length ps \<le> 10"
    and "PromptNull \<in> set ps"
  shows "batchGenerate services createMetricsRecord body uid =
           (PassedToNext, batch_calls body uid (takeWhile (\<lambda>p. p \<noteq> PromptNull) ps))"
proof -
  have "ps \<noteq> []" using assms(2) by auto
  then show ?thesis
    using assms(1-3)
    by (simp add: batchGenerate_def Let_def dispatch_calls_aborted [OF assms(4)] batch_calls_def)
qed

lemma batchGenerate_rejects:
  "prompts body = NotAnArray \<or> prompts body = PromptArray [] \<Longrightarrow>
     batchGenerate services createMetricsRecord body uid =
       (Rejected400 ''A non-empty array of prompts is required'' VALIDATION_ERROR, [])"
  "prompts body = PromptArray ps \<Longrightarrow> 10 < length ps \<Longrightarrow>
     batchGenerate services createMetricsRecord body uid =
       (Rejected400 ''Batch requests are limited to 10 prompts'' TOO_MANY_REQUESTS, [])"
  by (auto simp: batchGenerate_def)






text \<open>
  C10. When \<open>prompts\<close> is not an array or is the empty array, the batch is rejected with
  the validation error and nothing is dispatched; and no input at all is answered with an
  empty list of results.
\<close>

theorem batchGenerate_requires_nonempty_array:
  "(prompts body = NotAnArray \<or> prompts body = PromptArray [] \<longrightarrow>
      batchGenerate services createMetricsRecord body uid =
        (Rejected400 ''A non-empty array of prompts is required'' VALIDATION_ERROR, [])) \<and>
   (\<forall>total. fst (batchGenerate services createMetricsRecord body uid) \<noteq> Ok200 [] total)"
proof (intro conjI impI allI)
  assume "prompts body = NotAnArray \<or> prompts body = PromptArray []"
  then show "batchGenerate services createMetricsRecord body uid =
        (Rejected400 ''A non-empty array of prompts is required'' VALIDATION_ERROR, [])"
    by (rule batchGenerate_rejects(1))
next
  fix total
  show "fst (batchGenerate services createMetricsRecord body uid) \<noteq> Ok200 [] total"
  proof (cases "prompts body")
    case NotAnArray
    then show ?thesis by (simp add: batchGenerate_rejects(1))
  next
    case (PromptArray ps)
    consider "ps = []" | "10 < length ps" | "1 \<le> length ps \<and> length ps \<le> 10"
      by (cases ps) (simp, fastforce)
    then show ?thesis
    proof cases
      case 1
      then show ?thesis using PromptArray by (simp add: batchGenerate_rejects(1))
    next
      case 2
      then show ?thesis using PromptArray by (simp add: batchGenerate_rejects(2))
    next
      case 3
      show ?thesis
      proof (cases "PromptNull \<in> set ps")
        case True
        then show ?thesis
          using 3 batchGenerate_aborted [OF PromptArray, of services createMetricsRecord uid]
          by simp
      next
        case False
        have "length (batch_results services body uid ps) \<noteq> 0"
          using 3 False by (auto simp add: length_batch_results)
        then have "batch_results services body uid ps \<noteq> []"
          by simp
        then show ?thesis
          using 3 False
            batchGenerate_in_range [OF PromptArray, of services createMetricsRecord uid]
          by simp
      qed
    qed
  qed
qed

theorem batchGenerate_requires_nonempty_array_witness:
  "prompts (batch_of []) = PromptArray [] \<and>
   batchGenerate always_fulfilled accepting_sink (batch_of []) ''u1'' =
     (Rejected400 ''A non-empty array of prompts is required'' VALIDATION_ERROR, []) \<and>
   prompts no_array = NotAnArray \<and>
   batchGenerate always_fulfilled accepting_sink no_array ''u1'' =
     (Rejected400 ''A non-empty array of prompts is required'' VALIDATION_ERROR, [])"
  using batchGenerate_requires_nonempty_array [of "batch_of []" always_fulfilled accepting_sink "''u1''"]
    batchGenerate_requires_nonempty_array [of no_array always_fulfilled accepting_sink "''u1''"]
  by (simp add: batch_of_def no_array_def)

end
